theory Spec2Isabelle
  imports Complex_Main "HOL-Library.Char_ord" "HOL-Library.List_Lexorder" "HOL-Library.Sublist"
    "HOL-Library.Multiset"
begin

section \<open>Exceptions\<close>

text \<open>
  Every exception the Python code can meet is a value. \<open>KeyError k\<close> is a failed
  subscript \<open>d[k]\<close>, \<open>IndexError\<close> a failed \<open>xs[0]\<close>, \<open>TypeError\<close> a subscript of
  \<open>None\<close>, \<open>ValidationError\<close> a pydantic model refusing a field. The other three are
  raised by the external collaborators: the document store (\<open>CosmosError\<close>), the search
  service (\<open>HTTPError\<close>, from \<open>requests.post\<close> or \<open>raise_for_status\<close>) and the hosted
  model (\<open>APIError\<close>); they carry the message of the exception.
\<close>

datatype error =
    KeyError string
  | IndexError
  | TypeError
  | ValidationError
  | CosmosError string
  | HTTPError string
  | APIError string

section \<open>History store adapter (utils/cosmos\_connection.py)\<close>

text \<open>
  The rows the two queries of the adapter project out of the container:
  \<open>SELECT c.session_id, c.timestamp\<close> and \<open>SELECT c.id, c.role, c.content, c.timestamp\<close>.
  Strings are byte strings (UTF-8), whose lexicographic order is Python's order on \<open>str\<close>.
\<close>

record session_row =
  sr_session_id :: string
  sr_timestamp :: string

record message_row =
  m_id :: string
  m_role :: string
  m_content :: string
  m_timestamp :: string

text \<open>
  The module's view of the document store: the flag \<open>cosmos_enabled\<close> set at import
  time, and what \<open>container.query_items\<close> answers to each of the two queries, an
  exception or the list of rows. The store is external, so its answers are parameters:
  any result list, in any order, and any pattern of failures.
\<close>

record cosmos =
  cosmos_enabled :: bool
  query_sessions :: "string \<Rightarrow> error + session_row list"
  query_messages :: "string \<Rightarrow> string \<Rightarrow> error + message_row list"

text \<open>
  A Python dict built by the adapter: \<open>{"session_id": sid, "messages": rows}\<close>, kept as
  the list of its keys and values. A subscript \<open>d[k]\<close> of a key that is absent raises
  \<open>KeyError\<close>.
\<close>

datatype pyvalue = PyStr string | PyRows "message_row list"

type_synonym pydict = "(string \<times> pyvalue) list"

definition subscript :: "pydict \<Rightarrow> string \<Rightarrow> error + pyvalue" where
  "subscript d k = (case map_of d k of None \<Rightarrow> Inl (KeyError k) | Some v \<Rightarrow> Inr v)"

text \<open>
  The loop of \<open>get_latest_session_ids\<close> over the rows of the query: a session id not seen
  before is recorded; then, whether or not one was recorded, the loop breaks as soon as
  \<open>len(unique_sessions) >= limit\<close>.
\<close>

fun dedupe_loop :: "int \<Rightarrow> session_row list \<Rightarrow> string set \<Rightarrow> string list \<Rightarrow> string list" where
  "dedupe_loop limit [] seen unique_sessions = unique_sessions"
| "dedupe_loop limit (item # items) seen unique_sessions =
     (let sid = sr_session_id item;
          seen' = (if sid \<notin> seen then insert sid seen else seen);
          unique' = (if sid \<notin> seen then unique_sessions @ [sid] else unique_sessions)
      in if limit \<le> int (length unique') then unique' else dedupe_loop limit items seen' unique')"

text \<open>\<open>None\<close> is Python's \<open>None\<close>: the store is disabled, or the query raised.\<close>

definition get_latest_session_ids :: "cosmos \<Rightarrow> string \<Rightarrow> int \<Rightarrow> string list option" where
  "get_latest_session_ids c user_id limit =
     (if \<not> cosmos_enabled c then None
      else case query_sessions c user_id of
             Inl e \<Rightarrow> None
           | Inr items \<Rightarrow> Some (dedupe_loop limit items {} []))"

text \<open>
  The loop of \<open>get_last_messages_from_cosmos\<close> over the session ids: a query that raises
  is skipped (\<open>continue\<close>), otherwise the rows are sorted by ascending timestamp (Python's
  \<open>sorted\<close> is stable, as \<open>sort_key\<close> is) and one dict per session is appended.
\<close>

fun session_loop :: "cosmos \<Rightarrow> string \<Rightarrow> string list \<Rightarrow> pydict list \<Rightarrow> pydict list" where
  "session_loop c user_id [] messages = messages"
| "session_loop c user_id (session_id # rest) messages =
     (case query_messages c user_id session_id of
        Inl e \<Rightarrow> session_loop c user_id rest messages
      | Inr items \<Rightarrow>
          session_loop c user_id rest
            (messages @ [[(''session_id'', PyStr session_id),
                          (''messages'', PyRows (sort_key m_timestamp items))]]))"

text \<open>
  Every exception raised inside the function is caught by one of its \<open>try\<close> blocks, so
  the function returns a list on every path; \<open>if not session_ids\<close> holds for \<open>None\<close> and
  for the empty list.
\<close>

definition get_last_messages_from_cosmos :: "cosmos \<Rightarrow> string \<Rightarrow> int \<Rightarrow> pydict list" where
  "get_last_messages_from_cosmos c user_id limit =
     (if \<not> cosmos_enabled c then []
      else case get_latest_session_ids c user_id limit of
             None \<Rightarrow> []
           | Some session_ids \<Rightarrow>
               (if session_ids = [] then [] else session_loop c user_id session_ids []))"

text \<open>The session identifiers a result of the history fetch carries, in order.\<close>

fun session_id_of :: "pydict \<Rightarrow> string option" where
  "session_id_of d = (case map_of d ''session_id'' of Some (PyStr s) \<Rightarrow> Some s | _ \<Rightarrow> None)"

definition returned_session_ids :: "pydict list \<Rightarrow> string list" where
  "returned_session_ids groups = List.map_filter session_id_of groups"

text \<open>Deduplication that keeps the first occurrence of each element, in order.\<close>

fun first_occurrences :: "'a list \<Rightarrow> 'a list \<Rightarrow> 'a list" where
  "first_occurrences acc [] = acc"
| "first_occurrences acc (x # xs) =
     (if x \<in> set acc then first_occurrences acc xs else first_occurrences (acc @ [x]) xs)"

section \<open>Retrieval client (utils/llm\_invoke.py)\<close>

text \<open>
  One result of the search service: a JSON object read with \<open>chunk.get(key, default)\<close>,
  so each key may be absent. The fields are the keys \<open>content\<close>, \<open>text\<close>,
  \<open>@search.score\<close>, \<open>@search.rerankerScore\<close> and \<open>metadata_storage_path\<close>. A score is
  a JSON number; it is modelled by the exact rational it denotes.
\<close>

record chunk =
  c_content :: "string option"
  c_text :: "string option"
  c_search_score :: "rat option"
  c_reranker_score :: "rat option"
  c_storage_path :: "string option"

text \<open>\<open>d.get(key, default)\<close>, on the field that holds the key.\<close>

definition get_or :: "'a option \<Rightarrow> 'a \<Rightarrow> 'a" where
  "get_or v dflt = (case v of None \<Rightarrow> dflt | Some x \<Rightarrow> x)"

text \<open>
  The slice \<open>xs[:k]\<close>: the first \<open>k\<close> elements, and for a negative \<open>k\<close> all but the last
  \<open>-k\<close>.
\<close>

definition py_slice_to :: "'a list \<Rightarrow> int \<Rightarrow> 'a list" where
  "py_slice_to xs k =
     (if 0 \<le> k then take (nat k) xs else take (nat (int (length xs) + k)) xs)"

text \<open>
  \<open>sorted(results, key=..., reverse=True)\<close>: descending by the key, elements with equal
  keys in their original order. That is the stable ascending sort by the negated key.
\<close>

definition reranker_key :: "chunk \<Rightarrow> rat" where
  "reranker_key x = get_or (c_reranker_score x) 0"

definition sorted_reverse :: "chunk list \<Rightarrow> chunk list" where
  "sorted_reverse results = sort_key (\<lambda>x. - reranker_key x) results"

text \<open>
  The search service is external: \<open>search_post query top_k\<close> is what the request with
  that body yields, an exception (of \<open>requests.post\<close>, \<open>raise_for_status\<close> or
  \<open>response.json\<close>) or the response object, whose key \<open>value\<close> may be absent.
\<close>

type_synonym search_service = "string \<Rightarrow> int \<Rightarrow> error + chunk list option"

definition query_azure_search :: "search_service \<Rightarrow> string \<Rightarrow> int \<Rightarrow> error + chunk list" where
  "query_azure_search search_post query top_k =
     (case search_post query top_k of
        Inl e \<Rightarrow> Inl e
      | Inr response_json \<Rightarrow>
          (let results = get_or response_json [];
               sorted_results = sorted_reverse results
           in Inr (py_slice_to sorted_results top_k)))"

section \<open>Context assembly (utils/llm\_invoke.py)\<close>

text \<open>Decimal rendering of a natural number, as an f-string renders \<open>{i+1}\<close>.\<close>

fun show_nat :: "nat \<Rightarrow> string" where
  "show_nat n =
     (if n < 10 then [char_of (48 + n)] else show_nat (n div 10) @ [char_of (48 + n mod 10)])"

text \<open>
  Rounding to the nearest integer, ties to even, and Python's \<open>round(x, ndigits)\<close> on
  the exact value of \<open>x\<close>. (Python then takes the float nearest to that decimal; the
  model keeps the decimal.)
\<close>

definition round_half_even :: "rat \<Rightarrow> int" where
  "round_half_even x =
     (let f = \<lfloor>x\<rfloor>; d = x - of_int f
      in if d < 1 / 2 then f else if 1 / 2 < d then f + 1 else if even f then f else f + 1)"

definition py_round :: "rat \<Rightarrow> nat \<Rightarrow> rat" where
  "py_round x ndigits = of_int (round_half_even (x * 10 ^ ndigits)) / 10 ^ ndigits"

text \<open>The format \<open>{x:.4f}\<close>: sign, integer part, point, four digits.\<close>

definition format_4f :: "rat \<Rightarrow> string" where
  "format_4f x =
     (let a = nat \<bar>round_half_even (x * 10000)\<bar>; m = a mod 10000
      in (if x < 0 then ''-'' else []) @ show_nat (a div 10000) @ ''.'' @
         [char_of (48 + m div 1000), char_of (48 + m div 100 mod 10),
          char_of (48 + m div 10 mod 10), char_of (48 + m mod 10)])"

text \<open>
  \<open>s.lower()\<close> on the letters A to Z, and \<open>s.endswith(suffixes)\<close>. The four suffixes
  tested are ASCII, and no other character lowers to one of their letters.
\<close>

definition lower_char :: "char \<Rightarrow> char" where
  "lower_char c =
     (let n = (of_char c :: nat) in if 65 \<le> n \<and> n \<le> 90 then char_of (n + 32) else c)"

definition endswith :: "string \<Rightarrow> string \<Rightarrow> bool" where
  "endswith s suf = (length suf \<le> length s \<and> drop (length s - length suf) s = suf)"

definition is_image_path :: "string \<Rightarrow> bool" where
  "is_image_path image_url =
     (let l = map lower_char image_url
      in endswith l ''.png'' \<or> endswith l ''.jpg'' \<or> endswith l ''.jpeg'' \<or> endswith l ''.svg'')"

definition format_chunk :: "nat \<Rightarrow> chunk \<Rightarrow> string" where
  "format_chunk i chunk =
     (let content = get_or (c_content chunk) (get_or (c_text chunk) []);
          score = get_or (c_search_score chunk) 0;
          rerank = get_or (c_reranker_score chunk) 0;
          image_url = get_or (c_storage_path chunk) [];
          content' = (if is_image_path image_url
                      then content @ [CHR 0x0A] @ ''[Image reference: '' @ image_url @ '']''
                      else content)
      in ''Source '' @ show_nat (i + 1) @ '' (score='' @ format_4f score @
         '', reranker='' @ format_4f rerank @ ''):'' @ [CHR 0x0A] @ content')"

fun format_loop :: "nat \<Rightarrow> chunk list \<Rightarrow> string list" where
  "format_loop i [] = []"
| "format_loop i (chunk # chunks) = format_chunk i chunk # format_loop (i + 1) chunks"

fun join :: "string \<Rightarrow> string list \<Rightarrow> string" where
  "join sep [] = []"
| "join sep [x] = x"
| "join sep (x # y # ys) = x @ sep @ join sep (y # ys)"

definition format_chunks_for_prompt :: "chunk list \<Rightarrow> string" where
  "format_chunks_for_prompt chunks = join [CHR 0x0A, CHR 0x0A] (format_loop 0 chunks)"

definition prompt_header :: string where
  "prompt_header =
     ''You are a helpful and knowledgeable document assistant chatbot. Your primary role is to help users find information from their documents using an integrated search system.'' @ [CHR 0x0A] @
     [CHR 0x0A] @
     ''            CORE BEHAVIOR:'' @ [CHR 0x0A] @
     ''            - Always try to provide a helpful response, even if the information is partial'' @ [CHR 0x0A] @
     ''            - Be conversational and friendly in your tone'' @ [CHR 0x0A] @
     ''            - When you have relevant information, present it clearly and confidently'' @ [CHR 0x0A] @
     ''            - Maintain conversation continuity by referencing previous exchanges when relevant'' @ [CHR 0x0A] @
     ''            - Only give the information present in the document,it is really important to NEVER EVER give answers based on your assumptions or outside the documents.'' @ [CHR 0x0A] @
     ''            - If there are any image links (e.g. Azure Blob Storage) from XML files, you must include them in your answer.'' @ [CHR 0x0A] @
     ''            - Position the image links exactly where they are referred to in the XML document. For example, if a paragraph references '' @ [CHR 0x22] @ ''Figure 1'' @ [CHR 0x22] @ '', include the image URL at that point in the answer.'' @ [CHR 0x0A] @
     ''            '' @ [CHR 0x0A] @
     ''            RESPONSE GUIDELINES:'' @ [CHR 0x0A] @
     ''            1. ALWAYS attempt to answer based on available document content'' @ [CHR 0x0A] @
     ''            2. If you find relevant information, provide a comprehensive response with specific details'' @ [CHR 0x0A] @
     ''            3. If information is partial, say '' @ [CHR 0x22] @ ''Based on the available information...'' @ [CHR 0x22] @ '' and provide what you can'' @ [CHR 0x0A] @
     ''            4. Ask clarifying questions when the user'' @ [CHR 0x27] @ ''s intent is unclear'' @ [CHR 0x0A] @
     ''            5. Provide context and explain technical terms when necessary'' @ [CHR 0x0A] @
     ''            6. Providing links is mandatory if present '' @ [CHR 0xE2, CHR 0x80, CHR 0x94] @ '' especially for images embedded in XML. Example: '' @ [CHR 0x22] @ ''As shown in Figure 1: [image URL]'' @ [CHR 0x22, CHR 0x0A] @
     [CHR 0x0A] @
     ''            CONVERSATION FLOW:'' @ [CHR 0x0A] @
     ''            - Acknowledge the user'' @ [CHR 0x27] @ ''s question'' @ [CHR 0x0A] @
     ''            - Search through available documents'' @ [CHR 0x0A] @
     ''            - Provide the most relevant information found'' @ [CHR 0x0A] @
     ''            - Provide links if available'' @ [CHR 0x0A] @
     ''            - Offer additional help or related information when appropriate'' @ [CHR 0x0A] @
     ''            - Reference previous conversation context when it adds value to the current response'' @ [CHR 0x0A] @
     [CHR 0x0A] @
     ''            IMPORTANT: You are strictly forbidden from answering using your own knowledge or anything outside the retrieved documents.'' @ [CHR 0x0A] @
     ''            Remember: You are designed to be maximally helpful. Even when perfect information isn'' @ [CHR 0x27] @ ''t available, guide the user toward useful insights or suggest ways to refine their search.''"

definition full_prompt :: "string \<Rightarrow> chunk list \<Rightarrow> string" where
  "full_prompt user_input top_chunks =
     prompt_header @ format_chunks_for_prompt top_chunks @
     [CHR 0x0A, CHR 0x0A] @ ''QUESTION: '' @ (user_input @ ''?'')"

section \<open>Messages, completions and attributions (utils/llm\_invoke.py)\<close>

text \<open>
  A message of the list sent to the model, \<open>{"role": ..., "content": ...}\<close>. The values
  of a historical message are whatever the subscripts \<open>msg["role"]\<close> and
  \<open>msg["content"]\<close> yield.
\<close>

record chat_message =
  cm_role :: pyvalue
  cm_content :: pyvalue

text \<open>
  The loop that appends one message per element of \<open>cosmos_messages\<close>. It runs before
  the retry loop and outside every \<open>try\<close>, so an exception of a subscript leaves
  \<open>call_llm_async_with_retry\<close>.
\<close>

fun history_messages :: "pydict list \<Rightarrow> chat_message list \<Rightarrow> error + chat_message list" where
  "history_messages [] chat_prompt = Inr chat_prompt"
| "history_messages (msg # rest) chat_prompt =
     (case subscript msg ''role'' of
        Inl e \<Rightarrow> Inl e
      | Inr r \<Rightarrow>
          (case subscript msg ''content'' of
             Inl e \<Rightarrow> Inl e
           | Inr c \<Rightarrow>
               history_messages rest (chat_prompt @ [\<lparr>cm_role = r, cm_content = c\<rparr>])))"

text \<open>
  The hosted model is external: \<open>llm attempt messages\<close> is what the call of attempt
  number \<open>attempt\<close> yields, an exception or a completion. The other arguments of the call
  are constants.
\<close>

record choice =
  message_content :: "string option"

record completion =
  choices :: "choice list"

type_synonym llm = "nat \<Rightarrow> chat_message list \<Rightarrow> error + completion"

text \<open>An entry of \<open>top_chunks\<close> in the returned dict, and the dict itself.\<close>

record attribution =
  a_content :: string
  a_search_score :: rat
  a_reranker_score :: rat
  a_source :: string

record llm_result =
  r_response :: "string option"
  r_top_chunks :: "attribution list"

definition to_attribution :: "chunk \<Rightarrow> attribution" where
  "to_attribution chunk =
     \<lparr>a_content = get_or (c_content chunk) (get_or (c_text chunk) []),
      a_search_score = py_round (get_or (c_search_score chunk) 0) 4,
      a_reranker_score = py_round (get_or (c_reranker_score chunk) 0) 4,
      a_source = get_or (c_storage_path chunk) []\<rparr>"

section \<open>Documents and events\<close>

text \<open>A document of the container, as \<open>save_message_to_cosmos\<close> of app.py writes it.\<close>

record document =
  d_id :: string
  d_session_id :: string
  d_user_id :: string
  d_user_roles :: "string list"
  d_role :: string
  d_content :: string
  d_timestamp :: string
  d_feedback :: "string option"
  d_top_chunks :: "attribution list"

text \<open>
  The calls made to the outside, in the order they are made: the search request, the
  sleeps and the model calls of the retry loop, and the operations on the container.
\<close>

datatype event =
    Search string
  | Sleep int
  | Invoke nat
  | CreateItem document
  | QueryItems string
  | ReplaceItem string document

section \<open>The retry loop and the generation call (utils/llm\_invoke.py)\<close>

text \<open>
  The body of the \<open>try\<close> after the sleep: the call, \<open>completion.choices[0]\<close> (an
  \<open>IndexError\<close> on an empty list) and the returned dict with the first two chunks.
\<close>

definition attempt_once :: "llm \<Rightarrow> chat_message list \<Rightarrow> chunk list \<Rightarrow> nat \<Rightarrow> error + llm_result" where
  "attempt_once llm chat_prompt top_chunks attempt =
     (case llm attempt chat_prompt of
        Inl e \<Rightarrow> Inl e
      | Inr completion \<Rightarrow>
          (case choices completion of
             [] \<Rightarrow> Inl IndexError
           | choice # _ \<Rightarrow>
               Inr \<lparr>r_response = message_content choice,
                    r_top_chunks = map to_attribution (py_slice_to top_chunks 2)\<rparr>))"

text \<open>
  The code after the loop; \<open>last_response\<close> is never assigned, \<open>if last_response\<close> asks
  for a non-empty string.
\<close>

definition after_loop :: "string option \<Rightarrow> error option \<Rightarrow> error + llm_result option" where
  "after_loop last_response last_error =
     (if last_response \<noteq> None \<and> last_response \<noteq> Some []
      then Inr (Some \<lparr>r_response = last_response, r_top_chunks = []\<rparr>)
      else case last_error of Some e \<Rightarrow> Inl e | None \<Rightarrow> Inr None)"

text \<open>\<open>range(n)\<close>: empty for \<open>n \<le> 0\<close>.\<close>

definition py_range :: "int \<Rightarrow> nat list" where
  "py_range n = [0..<nat n]"

text \<open>
  \<open>for attempt in range(max_retries)\<close>, over the attempts still to make, with
  \<open>last_error\<close> and the events so far. The result is a returned value (\<open>Inr\<close>, \<open>None\<close>
  for Python's \<open>None\<close>) or a raised exception (\<open>Inl\<close>).
\<close>

fun retry_loop ::
  "llm \<Rightarrow> chat_message list \<Rightarrow> chunk list \<Rightarrow> int \<Rightarrow> int \<Rightarrow> nat list \<Rightarrow> error option \<Rightarrow>
   event list \<Rightarrow> (error + llm_result option) \<times> event list" where
  "retry_loop llm chat_prompt top_chunks max_retries delay [] last_error trace =
     (after_loop None last_error, trace)"
| "retry_loop llm chat_prompt top_chunks max_retries delay (attempt # rest) last_error trace =
     (let trace1 = (if 0 < attempt then trace @ [Sleep delay] else trace);
          trace2 = trace1 @ [Invoke attempt]
      in case attempt_once llm chat_prompt top_chunks attempt of
           Inr result \<Rightarrow> (Inr (Some result), trace2)
         | Inl e \<Rightarrow>
             (if max_retries - 1 \<le> int attempt then (Inl e, trace2)
              else retry_loop llm chat_prompt top_chunks max_retries delay rest (Some e) trace2))"

text \<open>Lines 135 to 210: the retry loop from its first attempt.\<close>

definition generate ::
  "llm \<Rightarrow> chat_message list \<Rightarrow> chunk list \<Rightarrow> int \<Rightarrow> int \<Rightarrow> (error + llm_result option) \<times> event list" where
  "generate llm chat_prompt top_chunks max_retries delay =
     retry_loop llm chat_prompt top_chunks max_retries delay (py_range max_retries) None []"

text \<open>
  The whole function. Its argument \<open>session_id\<close> is what it passes to the history fetch
  as \<open>user_id\<close>. The search and the history loop run before the first attempt, outside
  the \<open>try\<close> of the retry loop.
\<close>

definition call_llm_async_with_retry ::
  "cosmos \<Rightarrow> search_service \<Rightarrow> llm \<Rightarrow> string \<Rightarrow> string \<Rightarrow> int \<Rightarrow> int \<Rightarrow>
   (error + llm_result option) \<times> event list" where
  "call_llm_async_with_retry c search_post llm user_input session_id max_retries delay =
     (let cosmos_messages = get_last_messages_from_cosmos c session_id 5;
          searched = [Search (user_input @ ''?'')]
      in case query_azure_search search_post (user_input @ ''?'') 5 of
           Inl e \<Rightarrow> (Inl e, searched)
         | Inr top_chunks \<Rightarrow>
             (case history_messages cosmos_messages [] of
                Inl e \<Rightarrow> (Inl e, searched)
              | Inr history \<Rightarrow>
                  (let chat_prompt = history @
                         [\<lparr>cm_role = PyStr ''user'',
                           cm_content = PyStr (full_prompt user_input top_chunks)\<rparr>];
                       (result, trace) = generate llm chat_prompt top_chunks max_retries delay
                   in (result, searched @ trace))))"

section \<open>Conversation ledger and routes (app.py)\<close>

text \<open>
  The container as app.py sees it: the stored documents, whether the store answers
  (\<open>up\<close>; when it does not, every operation raises), and the log of the calls made so
  far.
\<close>

record world =
  docs :: "document list"
  up :: bool
  log :: "event list"

definition create_item :: "world \<Rightarrow> document \<Rightarrow> (error + unit) \<times> world" where
  "create_item w body =
     (let w' = w\<lparr>log := log w @ [CreateItem body]\<rparr>
      in if up w then (Inr (), w'\<lparr>docs := docs w @ [body]\<rparr>)
         else (Inl (CosmosError ''create_item''), w'))"

text \<open>\<open>SELECT * FROM c WHERE c.id = @id\<close>, across partitions.\<close>

definition query_items :: "world \<Rightarrow> string \<Rightarrow> (error + document list) \<times> world" where
  "query_items w message_id =
     (let w' = w\<lparr>log := log w @ [QueryItems message_id]\<rparr>
      in if up w then (Inr (filter (\<lambda>d. d_id d = message_id) (docs w)), w')
         else (Inl (CosmosError ''query_items''), w'))"

text \<open>
  \<open>replace_item(item=message_id, body=item)\<close> puts \<open>body\<close> in the place of the stored
  document with that id, the first one when several have it; with no such document the
  store raises.
\<close>

fun replace_first :: "string \<Rightarrow> document \<Rightarrow> document list \<Rightarrow> document list option" where
  "replace_first message_id body [] = None"
| "replace_first message_id body (d # ds) =
     (if d_id d = message_id then Some (body # ds)
      else map_option ((#) d) (replace_first message_id body ds))"

definition replace_item :: "world \<Rightarrow> string \<Rightarrow> document \<Rightarrow> (error + unit) \<times> world" where
  "replace_item w message_id body =
     (let w' = w\<lparr>log := log w @ [ReplaceItem message_id body]\<rparr>
      in if up w
         then (case replace_first message_id body (docs w) of
                 None \<Rightarrow> (Inl (CosmosError ''replace_item''), w')
               | Some ds \<Rightarrow> (Inr (), w'\<lparr>docs := ds\<rparr>))
         else (Inl (CosmosError ''replace_item''), w'))"

text \<open>
  \<open>save_message_to_cosmos\<close> of app.py. \<open>new_id\<close> is the \<open>uuid4\<close> drawn and \<open>now\<close> the clock
  read when no timestamp is given; \<open>x or y\<close> takes \<open>y\<close> when \<open>x\<close> is \<open>None\<close> or empty.
\<close>

definition save_message_to_cosmos ::
  "world \<Rightarrow> string \<Rightarrow> string \<Rightarrow> string \<Rightarrow> string \<Rightarrow> string \<Rightarrow> string \<Rightarrow> string list option \<Rightarrow>
   string option \<Rightarrow> string option \<Rightarrow> attribution list option \<Rightarrow> (error + unit) \<times> world" where
  "save_message_to_cosmos w new_id now session_id user_id role content user_roles feedback
       timestamp top_chunks =
     (let message =
            \<lparr>d_id = new_id,
             d_session_id = session_id,
             d_user_id = user_id,
             d_user_roles = get_or user_roles [],
             d_role = role,
             d_content = content,
             d_timestamp = (case timestamp of
                              None \<Rightarrow> now
                            | Some t \<Rightarrow> if t = [] then now else t),
             d_feedback = feedback,
             d_top_chunks = get_or top_chunks []\<rparr>
      in create_item w message)"

text \<open>The request and response models of the two routes.\<close>

record chat_request =
  rq_message :: string
  rq_session_id :: string
  rq_user_id :: string
  rq_user_roles :: "string list"

record score_only =
  so_search_score :: rat
  so_reranker_score :: rat

record chat_response =
  rs_response :: string
  rs_session_id :: string
  rs_elapsed_time :: rat
  rs_first_chunk :: "score_only option"
  rs_second_chunk :: "score_only option"

record feedback_request =
  fr_id :: string
  fr_feedback :: string
  fr_sessionId :: string

text \<open>
  What a route returns: the typed response, the dict of a feedback update, or a
  \<open>JSONResponse\<close> with a status code, whose content is \<open>{"error": str(e)}\<close> for an
  exception \<open>e\<close> or \<open>{"error": text}\<close> for a fixed text.
\<close>

datatype error_content = StrOf error | Text string

datatype http_response =
    ChatOK chat_response
  | FeedbackOK string string
  | JSONResponse error_content nat

text \<open>
  What one run of \<open>chat\<close> reads from its environment: the two \<open>uuid4\<close> values, the clock
  at the three places it is read, the two \<open>time.time()\<close> values, and how \<open>str\<close> renders
  a float.
\<close>

record runtime =
  user_uuid :: string
  assistant_uuid :: string
  user_timestamp :: string
  assistant_timestamp :: string
  save_clock :: string
  start_time :: rat
  end_time :: rat
  float_str :: "rat \<Rightarrow> string"

definition score_of :: "attribution \<Rightarrow> score_only" where
  "score_of a = \<lparr>so_search_score = a_search_score a, so_reranker_score = a_reranker_score a\<rparr>"

definition assistant_content :: "runtime \<Rightarrow> string option \<Rightarrow> rat \<Rightarrow> string" where
  "assistant_content rt response_text elapsed_seconds =
     (case response_text of None \<Rightarrow> ''None'' | Some t \<Rightarrow> t) @
     [CHR 0x0A, CHR 0x0A] @ ''_'' @ [CHR 0xE2, CHR 0x8F, CHR 0xB1, CHR 0xEF, CHR 0xB8, CHR 0x8F] @
     '' Response time: '' @ float_str rt elapsed_seconds @ '' seconds_''"

text \<open>
  The route \<open>/chat\<close>. Every exception inside is caught by the one \<open>except\<close> and answered
  with status 500. \<open>response_data\<close> is subscripted, a \<open>TypeError\<close> on \<open>None\<close>; the model
  \<open>ChatResponse\<close> refuses a \<open>response\<close> that is \<open>None\<close>.
\<close>

definition chat ::
  "cosmos \<Rightarrow> search_service \<Rightarrow> llm \<Rightarrow> runtime \<Rightarrow> world \<Rightarrow> chat_request \<Rightarrow> http_response \<times> world" where
  "chat c search_post llm rt w request =
     (case save_message_to_cosmos w (user_uuid rt) (save_clock rt) (rq_session_id request)
             (rq_user_id request) ''user'' (rq_message request) (Some (rq_user_roles request))
             None (Some (user_timestamp rt)) None of
        (Inl e, w1) \<Rightarrow> (JSONResponse (StrOf e) 500, w1)
      | (Inr u, w1) \<Rightarrow>
          (case call_llm_async_with_retry c search_post llm (rq_message request)
                  (rq_session_id request) 3 2 of
             (Inl e, trace) \<Rightarrow> (JSONResponse (StrOf e) 500, w1\<lparr>log := log w1 @ trace\<rparr>)
           | (Inr None, trace) \<Rightarrow>
               (JSONResponse (StrOf TypeError) 500, w1\<lparr>log := log w1 @ trace\<rparr>)
           | (Inr (Some response_data), trace) \<Rightarrow>
               (let w2 = w1\<lparr>log := log w1 @ trace\<rparr>;
                    response_text = r_response response_data;
                    top_chunks = r_top_chunks response_data;
                    elapsed_seconds = py_round (end_time rt - start_time rt) 3
                in case save_message_to_cosmos w2 (assistant_uuid rt) (save_clock rt)
                          (rq_session_id request) (rq_user_id request) ''assistant''
                          (assistant_content rt response_text elapsed_seconds)
                          (Some (rq_user_roles request)) None (Some (assistant_timestamp rt))
                          (Some top_chunks) of
                     (Inl e, w3) \<Rightarrow> (JSONResponse (StrOf e) 500, w3)
                   | (Inr u', w3) \<Rightarrow>
                       (let first_chunk_scores =
                              (if 0 < length top_chunks then Some (score_of (top_chunks ! 0))
                               else None);
                            second_chunk_scores =
                              (if 1 < length top_chunks then Some (score_of (top_chunks ! 1))
                               else None)
                        in case response_text of
                             None \<Rightarrow> (JSONResponse (StrOf ValidationError) 500, w3)
                           | Some t \<Rightarrow>
                               (ChatOK \<lparr>rs_response = t,
                                        rs_session_id = rq_session_id request,
                                        rs_elapsed_time = elapsed_seconds,
                                        rs_first_chunk = first_chunk_scores,
                                        rs_second_chunk = second_chunk_scores\<rparr>, w3)))))"

text \<open>
  The route \<open>/update-feedback\<close>: the validation, the lookup by id alone, the rewrite of
  the first document found with its \<open>feedback\<close> set. An exception of the store is
  answered with status 500 and a fixed text.
\<close>

definition update_feedback :: "world \<Rightarrow> feedback_request \<Rightarrow> http_response \<times> world" where
  "update_feedback w feedback_request =
     (let message_id = fr_id feedback_request;
          feedback = fr_feedback feedback_request;
          session_id = fr_sessionId feedback_request
      in if message_id = [] \<or> feedback \<notin> set [''positive'', ''negative''] \<or> session_id = []
         then (JSONResponse (Text ''Invalid input'') 400, w)
         else case query_items w message_id of
                (Inl e, w1) \<Rightarrow> (JSONResponse (Text ''Failed to update feedback'') 500, w1)
              | (Inr items, w1) \<Rightarrow>
                  (case items of
                     [] \<Rightarrow> (JSONResponse (Text ''Message not found in database'') 404, w1)
                   | item0 # _ \<Rightarrow>
                       (let item = item0\<lparr>d_feedback := Some feedback\<rparr>
                        in case replace_item w1 message_id item of
                             (Inl e, w2) \<Rightarrow>
                               (JSONResponse (Text ''Failed to update feedback'') 500, w2)
                           | (Inr u, w2) \<Rightarrow> (FeedbackOK message_id feedback, w2))))"

section \<open>Notions the properties are stated with\<close>

text \<open>A number with at most four decimal digits: a whole multiple of one ten-thousandth.\<close>

definition four_decimals :: "rat \<Rightarrow> bool" where
  "four_decimals q = (of_int \<lfloor>q * 10000\<rfloor> = q * 10000)"

text \<open>
  The events of attempt number \<open>i\<close> as the retry policy words them: a sleep of the fixed
  delay before every attempt but the first, then the call. \<open>schedule delay n\<close> is the
  events of the first \<open>n\<close> attempts.
\<close>

definition attempt_events :: "int \<Rightarrow> nat \<Rightarrow> event list" where
  "attempt_events delay i = (if 0 < i then [Sleep delay] else []) @ [Invoke i]"

definition schedule :: "int \<Rightarrow> nat \<Rightarrow> event list" where
  "schedule delay n = concat (map (attempt_events delay) [0..<n])"

text \<open>The events that belong to the generation call: the search, the sleeps, the calls.\<close>

fun is_generation_event :: "event \<Rightarrow> bool" where
  "is_generation_event (Search q) = True"
| "is_generation_event (Sleep d) = True"
| "is_generation_event (Invoke i) = True"
| "is_generation_event _ = False"

text \<open>
  The user turn and the assistant turn of a chat request, as documents: what \<open>chat\<close>
  hands to \<open>save_message_to_cosmos\<close> in its two calls.
\<close>

definition user_document :: "runtime \<Rightarrow> chat_request \<Rightarrow> document" where
  "user_document rt request =
     \<lparr>d_id = user_uuid rt,
      d_session_id = rq_session_id request,
      d_user_id = rq_user_id request,
      d_user_roles = rq_user_roles request,
      d_role = ''user'',
      d_content = rq_message request,
      d_timestamp = (if user_timestamp rt = [] then save_clock rt else user_timestamp rt),
      d_feedback = None,
      d_top_chunks = []\<rparr>"

definition assistant_document :: "runtime \<Rightarrow> chat_request \<Rightarrow> llm_result \<Rightarrow> document" where
  "assistant_document rt request response_data =
     \<lparr>d_id = assistant_uuid rt,
      d_session_id = rq_session_id request,
      d_user_id = rq_user_id request,
      d_user_roles = rq_user_roles request,
      d_role = ''assistant'',
      d_content = assistant_content rt (r_response response_data)
                    (py_round (end_time rt - start_time rt) 3),
      d_timestamp = (if assistant_timestamp rt = [] then save_clock rt
                     else assistant_timestamp rt),
      d_feedback = None,
      d_top_chunks = r_top_chunks response_data\<rparr>"

text \<open>
  The store after a feedback update that found its turn: the first document with the
  identifier carries the feedback, every other document is as before.
\<close>

fun set_feedback :: "string \<Rightarrow> string \<Rightarrow> document list \<Rightarrow> document list" where
  "set_feedback message_id feedback [] = []"
| "set_feedback message_id feedback (d # ds) =
     (if d_id d = message_id then d\<lparr>d_feedback := Some feedback\<rparr> # ds
      else d # set_feedback message_id feedback ds)"

text \<open>The status code of a response; FastAPI answers a returned model or dict with 200.\<close>

fun status_code :: "http_response \<Rightarrow> nat" where
  "status_code (ChatOK r) = 200"
| "status_code (FeedbackOK i f) = 200"
| "status_code (JSONResponse content code) = code"

text \<open>A request that passes the validation of \<open>update_feedback\<close>.\<close>

definition valid_feedback_request :: "feedback_request \<Rightarrow> bool" where
  "valid_feedback_request request =
     (fr_id request \<noteq> [] \<and> (fr_feedback request = ''positive'' \<or> fr_feedback request = ''negative'')
      \<and> fr_sessionId request \<noteq> [])"

section \<open>Example inputs\<close>

text \<open>
  A store that is enabled but whose queries raise, and a store holding two turns of
  user \<open>u1\<close> in session \<open>s1\<close>.
\<close>

definition failing_cosmos :: cosmos where
  "failing_cosmos =
     \<lparr>cosmos_enabled = True,
      query_sessions = (\<lambda>u. Inl (CosmosError ''unreachable'')),
      query_messages = (\<lambda>u s. Inl (CosmosError ''unreachable''))\<rparr>"

definition disabled_cosmos :: cosmos where
  "disabled_cosmos =
     \<lparr>cosmos_enabled = False,
      query_sessions = (\<lambda>u. Inr []),
      query_messages = (\<lambda>u s. Inr [])\<rparr>"

definition two_turn_cosmos :: cosmos where
  "two_turn_cosmos =
     \<lparr>cosmos_enabled = True,
      query_sessions = (\<lambda>u. if u = ''u1''
         then Inr [\<lparr>sr_session_id = ''s1'', sr_timestamp = ''2024-01-01T10:00:05''\<rparr>,
                   \<lparr>sr_session_id = ''s1'', sr_timestamp = ''2024-01-01T10:00:00''\<rparr>]
         else Inr []),
      query_messages = (\<lambda>u s. if u = ''u1'' \<and> s = ''s1''
         then Inr [\<lparr>m_id = ''m2'', m_role = ''assistant'', m_content = ''Hello'',
                    m_timestamp = ''2024-01-01T10:00:05''\<rparr>,
                   \<lparr>m_id = ''m1'', m_role = ''user'', m_content = ''Hi'',
                    m_timestamp = ''2024-01-01T10:00:00''\<rparr>]
         else Inr [])\<rparr>"

text \<open>
  Three results of the search service, not in the order of their reranker scores, and
  a service that answers every request with them.
\<close>

definition chunk_a :: chunk where
  "chunk_a = \<lparr>c_content = Some ''Refunds are issued within 14 days.'', c_text = None,
              c_search_score = Some (31 / 10), c_reranker_score = Some (1 / 2),
              c_storage_path = Some ''docs/refunds.xml''\<rparr>"

definition chunk_b :: chunk where
  "chunk_b = \<lparr>c_content = Some ''Refund policy overview.'', c_text = None,
              c_search_score = Some (123456 / 100000), c_reranker_score = Some (9 / 10),
              c_storage_path = Some ''docs/policy.png''\<rparr>"

definition chunk_c :: chunk where
  "chunk_c = \<lparr>c_content = None, c_text = Some ''Shipping times.'',
              c_search_score = Some (7 / 10), c_reranker_score = Some (1 / 5),
              c_storage_path = None\<rparr>"

definition example_search :: search_service where
  "example_search = (\<lambda>query top_k. Inr (Some [chunk_a, chunk_b, chunk_c]))"

text \<open>
  A model that answers at once, and one whose every call raises, with a different
  exception at each attempt.
\<close>

definition answering_llm :: llm where
  "answering_llm = (\<lambda>attempt messages.
     Inr \<lparr>choices = [\<lparr>message_content = Some ''Refunds are issued within 14 days.''\<rparr>]\<rparr>)"

definition failing_llm :: llm where
  "failing_llm = (\<lambda>attempt messages.
     Inl (if attempt = 0 then APIError ''first''
          else if attempt = 1 then APIError ''second'' else APIError ''third''))"

text \<open>The result the generation call returns on the example search and model.\<close>

definition example_result :: llm_result where
  "example_result =
     \<lparr>r_response = Some ''Refunds are issued within 14 days.'',
      r_top_chunks =
        [\<lparr>a_content = ''Refund policy overview.'', a_search_score = 6173 / 5000,
          a_reranker_score = 9 / 10, a_source = ''docs/policy.png''\<rparr>,
         \<lparr>a_content = ''Refunds are issued within 14 days.'', a_search_score = 31 / 10,
          a_reranker_score = 1 / 2, a_source = ''docs/refunds.xml''\<rparr>]\<rparr>"

text \<open>A chat request and the values one run reads; a store with one turn, and an empty one.\<close>

definition example_request :: chat_request where
  "example_request =
     \<lparr>rq_message = ''What is the refund policy'', rq_session_id = ''s1'',
      rq_user_id = ''u1'', rq_user_roles = [''reader'']\<rparr>"

definition example_runtime :: runtime where
  "example_runtime =
     \<lparr>user_uuid = ''id-1'', assistant_uuid = ''id-2'',
      user_timestamp = ''2024-01-01T10:00:00'', assistant_timestamp = ''2024-01-01T10:00:07'',
      save_clock = ''2024-01-01T10:00:01'', start_time = 100, end_time = 213 / 2,
      float_str = (\<lambda>x. ''6.5'')\<rparr>"

definition empty_world :: world where
  "empty_world = \<lparr>docs = [], up = True, log = []\<rparr>"

definition stored_turn :: document where
  "stored_turn =
     \<lparr>d_id = ''m1'', d_session_id = ''s1'', d_user_id = ''u1'', d_user_roles = [],
      d_role = ''assistant'', d_content = ''Hello'', d_timestamp = ''2024-01-01T10:00:05'',
      d_feedback = None, d_top_chunks = []\<rparr>"

definition one_turn_world :: world where
  "one_turn_world = \<lparr>docs = [stored_turn], up = True, log = []\<rparr>"

section \<open>Properties of the history store adapter\<close>

lemma first_occurrences_prefix: "\<exists>zs. first_occurrences acc xs = acc @ zs"
proof (induction xs arbitrary: acc)
  case Nil
  then show ?case by simp
next
  case (Cons x xs)
  show ?case
  proof (cases "x \<in> set acc")
    case True
    then show ?thesis using Cons.IH[of acc] by simp
  next
    case False
    obtain zs where "first_occurrences (acc @ [x]) xs = (acc @ [x]) @ zs"
      using Cons.IH[of "acc @ [x]"] by blast
    then show ?thesis using False by simp
  qed
qed

lemma first_occurrences_distinct: "distinct acc \<Longrightarrow> distinct (first_occurrences acc xs)"
  by (induction xs arbitrary: acc) auto

text \<open>
  While fewer than \<open>limit\<close> identifiers are recorded, the loop computes the first
  \<open>limit\<close> of the deduplicated identifiers: it deduplicates first and limits second.
\<close>

lemma dedupe_loop_invariant:
  assumes "seen = set us" "distinct us" "int (length us) < limit"
  shows "dedupe_loop limit items seen us =
           take (nat limit) (first_occurrences us (map sr_session_id items))"
  using assms
proof (induction items arbitrary: seen us)
  case Nil
  then show ?case by simp
next
  case (Cons item items)
  show ?case
  proof (cases "sr_session_id item \<in> set us")
    case True
    with Cons show ?thesis by (simp add: Let_def)
  next
    case False
    let ?us = "us @ [sr_session_id item]"
    show ?thesis
    proof (cases "limit \<le> int (length ?us)")
      case True
      have len: "nat limit = length ?us" using True Cons.prems by simp
      obtain zs where "first_occurrences ?us (map sr_session_id items) = ?us @ zs"
        using first_occurrences_prefix by blast
      then show ?thesis using True False Cons.prems len by (simp add: Let_def)
    next
      case below: False
      have "dedupe_loop limit items (set ?us) ?us =
              take (nat limit) (first_occurrences ?us (map sr_session_id items))"
        using Cons.IH[of "set ?us" ?us] Cons.prems False below by simp
      then show ?thesis using False below Cons.prems by (simp add: Let_def)
    qed
  qed
qed

lemma get_latest_session_ids_limit:
  assumes "1 \<le> limit" "cosmos_enabled c" "query_sessions c user_id = Inr items"
  shows "get_latest_session_ids c user_id limit =
           Some (take (nat limit) (first_occurrences [] (map sr_session_id items)))"
  using assms dedupe_loop_invariant[of "{}" "[]" limit items]
  by (simp add: get_latest_session_ids_def)

lemma returned_session_ids_append:
  "returned_session_ids (xs @ ys) = returned_session_ids xs @ returned_session_ids ys"
  by (simp add: returned_session_ids_def List.map_filter_def)

lemma session_loop_ids:
  "returned_session_ids (session_loop c user_id sids messages) =
     returned_session_ids messages @ filter (\<lambda>s. \<not> isl (query_messages c user_id s)) sids"
proof (induction sids arbitrary: messages)
  case Nil
  then show ?case by simp
next
  case (Cons s sids)
  show ?case
  proof (cases "query_messages c user_id s")
    case (Inl e)
    then show ?thesis using Cons.IH[of messages] by simp
  next
    case (Inr rows)
    then show ?thesis
      using Cons.IH[of "messages @ [[(''session_id'', PyStr s),
                                     (''messages'', PyRows (sort_key m_timestamp rows))]]"]
      by (simp add: returned_session_ids_append)
         (simp add: returned_session_ids_def List.map_filter_def)
  qed
qed

text \<open>
  For a limit of at least one, the sessions of the result are the first \<open>limit\<close>
  deduplicated session identifiers of the query, less those whose own query raised.
\<close>

lemma history_session_ids:
  assumes "1 \<le> limit" "cosmos_enabled c" "query_sessions c user_id = Inr items"
  shows "returned_session_ids (get_last_messages_from_cosmos c user_id limit) =
           filter (\<lambda>s. \<not> isl (query_messages c user_id s))
             (take (nat limit) (first_occurrences [] (map sr_session_id items)))"
  using assms get_latest_session_ids_limit[OF assms]
  by (simp add: get_last_messages_from_cosmos_def session_loop_ids)
     (simp add: returned_session_ids_def List.map_filter_def)

lemma history_session_ids_bounded:
  assumes "1 \<le> limit"
  shows "length (returned_session_ids (get_last_messages_from_cosmos c user_id limit)) \<le> nat limit
         \<and> distinct (returned_session_ids (get_last_messages_from_cosmos c user_id limit))"
proof (cases "cosmos_enabled c")
  case False
  then show ?thesis
    by (simp add: get_last_messages_from_cosmos_def returned_session_ids_def List.map_filter_def)
next
  case True
  show ?thesis
  proof (cases "query_sessions c user_id")
    case (Inl e)
    then show ?thesis using True
      by (simp add: get_last_messages_from_cosmos_def get_latest_session_ids_def
                    returned_session_ids_def List.map_filter_def)
  next
    case (Inr items)
    let ?u = "take (nat limit) (first_occurrences [] (map sr_session_id items))"
    have d: "distinct ?u" by (simp add: first_occurrences_distinct)
    have l: "length (filter (\<lambda>s. \<not> isl (query_messages c user_id s)) ?u) \<le> length ?u"
      by (rule length_filter_le)
    show ?thesis using history_session_ids[OF assms True Inr] d l by simp
  qed
qed

text \<open>
  Claim C7. When the store is disabled, or the query for the session identifiers
  raises, \<open>get_last_messages_from_cosmos\<close> returns the empty list; it raises nothing.
\<close>

theorem history_fetch_degrades_to_empty:
  "\<not> cosmos_enabled c \<or> isl (query_sessions c user_id) \<Longrightarrow>
     get_last_messages_from_cosmos c user_id limit = []"
  by (auto simp: get_last_messages_from_cosmos_def get_latest_session_ids_def isl_def)

theorem history_fetch_degrades_to_empty_witness:
  "get_last_messages_from_cosmos failing_cosmos ''u1'' 5 = []
   \<and> get_last_messages_from_cosmos disabled_cosmos ''u1'' 5 = []"
proof -
  have a: "\<not> cosmos_enabled failing_cosmos \<or> isl (query_sessions failing_cosmos ''u1'')"
    by (simp add: failing_cosmos_def)
  have b: "\<not> cosmos_enabled disabled_cosmos \<or> isl (query_sessions disabled_cosmos ''u1'')"
    by (simp add: disabled_cosmos_def)
  show ?thesis
    using history_fetch_degrades_to_empty[OF a, of 5] history_fetch_degrades_to_empty[OF b, of 5]
    by simp
qed

text \<open>
  With a limit of zero or less the loop stops after its first row, having recorded the
  session of that row.
\<close>

lemma dedupe_loop_nonpositive:
  "limit \<le> 0 \<Longrightarrow> dedupe_loop limit (item # items) {} [] = [sr_session_id item]"
  by (simp add: Let_def)

text \<open>
  Claim C8, at the limit 0. The user has turns in one session; the loop records the
  session and only then compares the count with the limit, so one session is returned
  where the limit allows none.
\<close>

theorem history_fetch_limit_zero:
  "returned_session_ids (get_last_messages_from_cosmos two_turn_cosmos ''u1'' 0) = [''s1'']
   \<and> get_latest_session_ids two_turn_cosmos ''u1'' 0 = Some [''s1'']"
  by (simp add: get_last_messages_from_cosmos_def get_latest_session_ids_def two_turn_cosmos_def
                returned_session_ids_def List.map_filter_def)

section \<open>Properties of the retrieval client\<close>

lemma sorted_reverse_descending:
  "sorted_wrt (\<lambda>a b. reranker_key b \<le> reranker_key a) (sorted_reverse results)"
proof -
  have "sorted (map (\<lambda>x. - reranker_key x) (sort_key (\<lambda>x. - reranker_key x) results))"
    by (rule sorted_sort_key)
  then show ?thesis by (simp add: sorted_reverse_def sorted_map)
qed

lemma sorted_reverse_mset: "mset (sorted_reverse results) = mset results"
  by (simp add: sorted_reverse_def)

text \<open>Results with equal reranker scores keep the order the service gave them.\<close>

lemma sorted_reverse_stable:
  "filter (\<lambda>x. reranker_key x = k) (sorted_reverse results) =
     filter (\<lambda>x. reranker_key x = k) results"
proof -
  have "filter (\<lambda>x. - reranker_key x = - k) (sort_key (\<lambda>x. - reranker_key x) results)
        = filter (\<lambda>x. - reranker_key x = - k) results"
    by (rule sort_key_stable)
  then show ?thesis by (simp add: sorted_reverse_def)
qed

lemma py_slice_to_nonneg: "0 \<le> k \<Longrightarrow> py_slice_to xs k = take (nat k) xs"
  by (simp add: py_slice_to_def)

text \<open>
  Claim C4. Whatever result set the search service returns, \<open>query_azure_search\<close>
  returns the first \<open>top_k\<close> entries of that set re-sorted by descending reranker score
  (a missing score counts as 0): the sorted list is a permutation of the returned set,
  it is in non-increasing order of the score, and the result has at most \<open>top_k\<close>
  entries. \<open>top_k\<close> is a number of results, so it is not negative.
\<close>

theorem retrieval_sorts_then_truncates:
  assumes "search_post query top_k = Inr response" and "0 \<le> top_k"
  shows "query_azure_search search_post query top_k =
           Inr (take (nat top_k) (sorted_reverse (get_or response [])))
         \<and> mset (sorted_reverse (get_or response [])) = mset (get_or response [])
         \<and> sorted_wrt (\<lambda>a b. reranker_key b \<le> reranker_key a)
              (sorted_reverse (get_or response []))
         \<and> int (length (take (nat top_k) (sorted_reverse (get_or response [])))) \<le> top_k"
  using assms
  by (simp add: query_azure_search_def py_slice_to_nonneg sorted_reverse_descending
                sorted_reverse_mset)

theorem retrieval_sorts_then_truncates_witness:
  "query_azure_search example_search ''refund policy?'' 2 = Inr [chunk_b, chunk_a]"
proof -
  have h: "example_search ''refund policy?'' 2 = Inr (Some [chunk_a, chunk_b, chunk_c])"
    by (simp add: example_search_def)
  have s: "sorted_reverse [chunk_a, chunk_b, chunk_c] = [chunk_b, chunk_a, chunk_c]"
    by (simp add: sorted_reverse_def reranker_key_def get_or_def chunk_a_def chunk_b_def
                  chunk_c_def)
  show ?thesis
    using retrieval_sorts_then_truncates[of example_search "''refund policy?''" 2
            "Some [chunk_a, chunk_b, chunk_c]"] h s
    by (simp add: get_or_def)
qed

section \<open>Properties of the rounding\<close>

lemma round_half_even_bounds:
  "\<lfloor>x\<rfloor> \<le> round_half_even x \<and> round_half_even x \<le> \<lfloor>x\<rfloor> + 1"
  by (simp add: round_half_even_def Let_def)

lemma round_half_even_mono:
  assumes "x \<le> y"
  shows "round_half_even x \<le> round_half_even y"
proof (cases "\<lfloor>x\<rfloor> = \<lfloor>y\<rfloor>")
  case True
  have "x - of_int \<lfloor>x\<rfloor> \<le> y - of_int \<lfloor>y\<rfloor>" using assms True by simp
  then show ?thesis using True by (auto simp: round_half_even_def Let_def)
next
  case False
  have "\<lfloor>x\<rfloor> \<le> \<lfloor>y\<rfloor>" using assms by (rule floor_mono)
  then have "\<lfloor>x\<rfloor> + 1 \<le> \<lfloor>y\<rfloor>" using False by simp
  then show ?thesis
    using round_half_even_bounds[of x] round_half_even_bounds[of y] by linarith
qed

lemma py_round_mono:
  assumes "x \<le> y"
  shows "py_round x n \<le> py_round y n"
proof -
  have "x * 10 ^ n \<le> y * 10 ^ n" using assms by (simp add: mult_right_mono)
  then have "round_half_even (x * 10 ^ n) \<le> round_half_even (y * 10 ^ n)"
    by (rule round_half_even_mono)
  then have "(of_int (round_half_even (x * 10 ^ n)) :: rat)
               \<le> of_int (round_half_even (y * 10 ^ n))"
    by simp
  then show ?thesis by (simp add: py_round_def divide_right_mono)
qed

lemma four_decimals_py_round: "four_decimals (py_round x 4)"
  by (simp add: four_decimals_def py_round_def)

lemma round_half_even_close: "\<bar>of_int (round_half_even x) - x\<bar> \<le> 1 / 2"
proof -
  define d where "d = x - of_int \<lfloor>x\<rfloor>"
  have d: "0 \<le> d" "d < 1" unfolding d_def by linarith+
  have x: "x = of_int \<lfloor>x\<rfloor> + d" by (simp add: d_def)
  have "\<bar>of_int (round_half_even x) - (of_int \<lfloor>x\<rfloor> + d)\<bar> \<le> 1 / 2"
    using d unfolding round_half_even_def Let_def d_def[symmetric]
    by (simp add: abs_if)
  then show ?thesis using x by simp
qed

text \<open>The rounded score is within half a unit of the fourth decimal of the score.\<close>

lemma py_round_close: "\<bar>py_round x 4 - x\<bar> \<le> 1 / 20000"
proof -
  have "\<bar>of_int (round_half_even (x * 10000)) - x * 10000\<bar> \<le> 1 / 2"
    by (rule round_half_even_close)
  then have "\<bar>(of_int (round_half_even (x * 10000)) - x * 10000) / 10000\<bar> \<le> (1 / 2) / 10000"
    by (simp add: abs_divide del: times_divide_eq_left)
  then show ?thesis by (simp add: py_round_def diff_divide_distrib)
qed

section \<open>Properties of the generation client\<close>

lemma retry_loop_success:
  "retry_loop llm msgs chunks max_retries delay attempts last_error trace = (Inr (Some r), t) \<Longrightarrow>
     r_top_chunks r = map to_attribution (py_slice_to chunks 2)"
proof (induction attempts arbitrary: last_error trace)
  case Nil
  then show ?case by (simp add: after_loop_def split: option.splits)
next
  case (Cons a attempts)
  then show ?case
    by (auto simp: Let_def attempt_once_def split: sum.splits list.splits if_splits)
qed

lemma call_llm_success:
  assumes "call_llm_async_with_retry c search_post llm user_input session_id max_retries delay =
             (Inr (Some r), trace)"
  shows "\<exists>chunks. query_azure_search search_post (user_input @ ''?'') 5 = Inr chunks
           \<and> r_top_chunks r = map to_attribution (take 2 chunks)"
  using assms
  by (auto simp: call_llm_async_with_retry_def generate_def Let_def py_slice_to_nonneg
           split: sum.splits prod.splits dest: retry_loop_success)

lemma query_azure_search_descending:
  assumes "query_azure_search search_post query top_k = Inr chunks" "0 \<le> top_k"
  shows "sorted_wrt (\<lambda>a b. reranker_key b \<le> reranker_key a) chunks"
  using assms
  by (auto simp: query_azure_search_def py_slice_to_nonneg sorted_reverse_descending Let_def
           split: sum.splits)

lemma to_attribution_sorted:
  assumes "sorted_wrt (\<lambda>a b. reranker_key b \<le> reranker_key a) chunks"
  shows "sorted_wrt (\<lambda>a b. a_reranker_score b \<le> a_reranker_score a) (map to_attribution chunks)"
proof -
  have "sorted_wrt (\<lambda>a b. py_round (reranker_key b) 4 \<le> py_round (reranker_key a) 4) chunks"
    using assms by (rule sorted_wrt_mono_rel[rotated]) (simp add: py_round_mono)
  then show ?thesis by (simp add: sorted_wrt_map to_attribution_def reranker_key_def)
qed

text \<open>
  Claim C3. When \<open>call_llm_async_with_retry\<close> returns a result, its \<open>top_chunks\<close> are
  the first two chunks of the retrieval step, each with its two scores rounded to four
  decimal digits: at most two entries, in non-increasing order of the reranker score,
  every score a whole multiple of one ten-thousandth.
\<close>

theorem attributions_top_two_sorted_rounded:
  assumes "call_llm_async_with_retry c search_post llm user_input session_id max_retries delay =
             (Inr (Some r), trace)"
  shows "length (r_top_chunks r) \<le> 2
         \<and> sorted_wrt (\<lambda>a b. a_reranker_score b \<le> a_reranker_score a) (r_top_chunks r)
         \<and> (\<forall>a \<in> set (r_top_chunks r).
               four_decimals (a_search_score a) \<and> four_decimals (a_reranker_score a))
         \<and> (\<exists>chunks. query_azure_search search_post (user_input @ ''?'') 5 = Inr chunks
               \<and> r_top_chunks r = map to_attribution (take 2 chunks))"
proof -
  obtain chunks where q: "query_azure_search search_post (user_input @ ''?'') 5 = Inr chunks"
    and r: "r_top_chunks r = map to_attribution (take 2 chunks)"
    using call_llm_success[OF assms] by blast
  have "sorted_wrt (\<lambda>a b. reranker_key b \<le> reranker_key a) (take 2 chunks)"
    using query_azure_search_descending[OF q] by simp
  then have s: "sorted_wrt (\<lambda>a b. a_reranker_score b \<le> a_reranker_score a) (r_top_chunks r)"
    unfolding r by (rule to_attribution_sorted)
  have f: "\<forall>a \<in> set (r_top_chunks r).
             four_decimals (a_search_score a) \<and> four_decimals (a_reranker_score a)"
    unfolding r by (auto simp: to_attribution_def four_decimals_py_round)
  have l: "length (r_top_chunks r) \<le> 2" unfolding r by simp
  show ?thesis using l s f q r by blast
qed

lemma to_attribution_chunk_b:
  "to_attribution chunk_b =
     \<lparr>a_content = ''Refund policy overview.'', a_search_score = 6173 / 5000,
      a_reranker_score = 9 / 10, a_source = ''docs/policy.png''\<rparr>"
  by code_simp

lemma to_attribution_chunk_a:
  "to_attribution chunk_a =
     \<lparr>a_content = ''Refunds are issued within 14 days.'', a_search_score = 31 / 10,
      a_reranker_score = 1 / 2, a_source = ''docs/refunds.xml''\<rparr>"
  by code_simp

lemma example_search_sorted:
  "query_azure_search example_search (q @ ''?'') 5 = Inr [chunk_b, chunk_a, chunk_c]"
  by (simp add: query_azure_search_def example_search_def py_slice_to_def
        sorted_reverse_def reranker_key_def get_or_def chunk_a_def chunk_b_def chunk_c_def)

lemma example_call_succeeds:
  "call_llm_async_with_retry disabled_cosmos example_search answering_llm
     ''What is the refund policy'' ''s1'' 3 2 =
   (Inr (Some example_result), [Search ''What is the refund policy?'', Invoke 0])"
  using example_search_sorted[of "''What is the refund policy''"]
  by (simp add: call_llm_async_with_retry_def get_last_messages_from_cosmos_def
        disabled_cosmos_def generate_def py_range_def upt_rec attempt_once_def
        answering_llm_def py_slice_to_def to_attribution_chunk_a to_attribution_chunk_b
        example_result_def)

lemma example_call_fails:
  "call_llm_async_with_retry disabled_cosmos example_search failing_llm
     ''What is the refund policy'' ''s1'' 3 2 =
   (Inl (APIError ''third''),
    [Search ''What is the refund policy?'', Invoke 0, Sleep 2, Invoke 1, Sleep 2, Invoke 2])"
  using example_search_sorted[of "''What is the refund policy''"]
  by (simp add: call_llm_async_with_retry_def get_last_messages_from_cosmos_def
        disabled_cosmos_def generate_def py_range_def upt_rec attempt_once_def
        failing_llm_def)

text \<open>
  The example of the claim: three chunks with reranker scores 0.5, 0.9 and 0.2 from the
  service, two attributions with scores 0.9 and 0.5 to the caller.
\<close>

theorem attributions_top_two_sorted_rounded_witness:
  "call_llm_async_with_retry disabled_cosmos example_search answering_llm
     ''What is the refund policy'' ''s1'' 3 2 =
     (Inr (Some example_result), [Search ''What is the refund policy?'', Invoke 0])
   \<and> length (r_top_chunks example_result) = 2
   \<and> map a_reranker_score (r_top_chunks example_result) = [9 / 10, 1 / 2]
   \<and> sorted_wrt (\<lambda>a b. a_reranker_score b \<le> a_reranker_score a) (r_top_chunks example_result)
   \<and> four_decimals (a_search_score (hd (r_top_chunks example_result)))"
  using attributions_top_two_sorted_rounded[OF example_call_succeeds] example_call_succeeds
  by (simp add: example_result_def)

section \<open>Properties of the retry loop\<close>

lemma retry_loop_step:
  assumes "a < n"
  shows "retry_loop llm msgs chunks N d [a..<n] le trace =
           (case attempt_once llm msgs chunks a of
              Inr result \<Rightarrow> (Inr (Some result), trace @ attempt_events d a)
            | Inl e \<Rightarrow>
                (if N - 1 \<le> int a then (Inl e, trace @ attempt_events d a)
                 else retry_loop llm msgs chunks N d [Suc a..<n] (Some e)
                        (trace @ attempt_events d a)))"
  using assms by (simp add: upt_conv_Cons Let_def attempt_events_def split: sum.splits)

text \<open>
  While the attempts raise and are not the last one allowed, the loop goes on to the
  next attempt, having made exactly the events of the attempts so far.
\<close>

lemma retry_loop_failures:
  assumes "a + k \<le> n"
    and "\<forall>i. a \<le> i \<and> i < a + k \<longrightarrow> isl (attempt_once llm msgs chunks i) \<and> int i < N - 1"
  shows "\<exists>le'. retry_loop llm msgs chunks N d [a..<n] le trace =
           retry_loop llm msgs chunks N d [a + k..<n] le'
             (trace @ concat (map (attempt_events d) [a..<a + k]))"
  using assms
proof (induction k)
  case 0
  then show ?case by auto
next
  case (Suc k)
  then obtain le' where IH: "retry_loop llm msgs chunks N d [a..<n] le trace =
           retry_loop llm msgs chunks N d [a + k..<n] le'
             (trace @ concat (map (attempt_events d) [a..<a + k]))"
    by force
  have lt: "a + k < n" using Suc.prems by simp
  have "isl (attempt_once llm msgs chunks (a + k)) \<and> int (a + k) < N - 1"
    using Suc.prems(2)[rule_format, of "a + k"] by simp
  then have f: "isl (attempt_once llm msgs chunks (a + k))" and r: "int (a + k) < N - 1"
    by simp_all
  obtain e where e: "attempt_once llm msgs chunks (a + k) = Inl e"
    using f by (auto simp: isl_def)
  have "retry_loop llm msgs chunks N d [a + k..<n] le'
             (trace @ concat (map (attempt_events d) [a..<a + k])) =
        retry_loop llm msgs chunks N d [Suc (a + k)..<n] (Some e)
             ((trace @ concat (map (attempt_events d) [a..<a + k])) @ attempt_events d (a + k))"
    using r e by (simp add: retry_loop_step[OF lt])
  then show ?case using IH by auto
qed

lemma retry_loop_extends: "prefix trace (snd (retry_loop llm msgs chunks N d attempts le trace))"
proof (induction attempts arbitrary: le trace)
  case Nil
  then show ?case by simp
next
  case (Cons a attempts)
  have p: "\<And>le' t x. prefix (t @ x) (snd (retry_loop llm msgs chunks N d attempts le' (t @ x)))"
    using Cons.IH by blast
  have q: "\<And>le' t x. prefix t (snd (retry_loop llm msgs chunks N d attempts le' (t @ x)))"
    using p by (meson append_prefixD)
  show ?case
    by (auto simp: Let_def q split: sum.splits)
qed

text \<open>Every run of the loop makes the events of its first \<open>m\<close> attempts, for some \<open>m\<close>.\<close>

lemma retry_loop_schedule:
  assumes "a < n"
  shows "\<exists>m. a < m \<and> m \<le> n \<and>
           snd (retry_loop llm msgs chunks N d [a..<n] le trace) =
             trace @ concat (map (attempt_events d) [a..<m])"
  using assms
proof (induction "n - a" arbitrary: a le trace)
  case 0
  then show ?case by simp
next
  case (Suc j)
  have one: "concat (map (attempt_events d) [a..<Suc a]) = attempt_events d a" by simp
  show ?case
  proof (cases "attempt_once llm msgs chunks a")
    case (Inr result)
    then have "snd (retry_loop llm msgs chunks N d [a..<n] le trace) = trace @ attempt_events d a"
      by (simp add: retry_loop_step[OF Suc.prems])
    then show ?thesis using Suc.prems one by (intro exI[of _ "Suc a"]) simp
  next
    case (Inl e)
    show ?thesis
    proof (cases "N - 1 \<le> int a \<or> Suc a = n")
      case True
      then have "snd (retry_loop llm msgs chunks N d [a..<n] le trace) = trace @ attempt_events d a"
        using Inl by (auto simp: retry_loop_step[OF Suc.prems] after_loop_def)
      then show ?thesis using Suc.prems one by (intro exI[of _ "Suc a"]) simp
    next
      case False
      then have lt: "Suc a < n" using Suc.prems by simp
      have j: "j = n - Suc a" using Suc.hyps(2) by simp
      obtain m where m: "Suc a < m" "m \<le> n"
        "snd (retry_loop llm msgs chunks N d [Suc a..<n] (Some e) (trace @ attempt_events d a)) =
           (trace @ attempt_events d a) @ concat (map (attempt_events d) [Suc a..<m])"
        using Suc.hyps(1)[OF j lt] by blast
      have "[a..<m] = a # [Suc a..<m]" using m(1) by (simp add: upt_conv_Cons)
      then have c: "concat (map (attempt_events d) [a..<m]) =
                 attempt_events d a @ concat (map (attempt_events d) [Suc a..<m])" by simp
      have "snd (retry_loop llm msgs chunks N d [a..<n] le trace) =
              trace @ concat (map (attempt_events d) [a..<m])"
        using False Inl m(3) c by (simp add: retry_loop_step[OF Suc.prems])
      then show ?thesis using m(1,2) by (intro exI[of _ m]) simp
    qed
  qed
qed

lemma generate_schedule:
  assumes "1 \<le> max_retries"
  shows "\<exists>m. 1 \<le> m \<and> int m \<le> max_retries
              \<and> snd (generate llm msgs chunks max_retries delay) = schedule delay m"
proof -
  have pos: "0 < nat max_retries" using assms by simp
  obtain m where "0 < m" "m \<le> nat max_retries"
    "snd (retry_loop llm msgs chunks max_retries delay [0..<nat max_retries] None []) =
       [] @ concat (map (attempt_events delay) [0..<m])"
    using retry_loop_schedule[OF pos] by blast
  then show ?thesis
    by (intro exI[of _ m]) (simp add: generate_def py_range_def schedule_def)
qed

lemma generate_retries_after_failure:
  assumes h: "int k + 1 < max_retries \<and> (\<forall>i\<le>k. isl (attempt_once llm msgs chunks i))"
  shows "prefix (schedule delay (Suc k) @ [Sleep delay, Invoke (Suc k)])
                (snd (generate llm msgs chunks max_retries delay))"
proof -
  have le: "0 + Suc k \<le> nat max_retries" using h by linarith
  have fl: "\<forall>i. 0 \<le> i \<and> i < 0 + Suc k \<longrightarrow>
              isl (attempt_once llm msgs chunks i) \<and> int i < max_retries - 1"
    using h by auto
  obtain le' where run:
    "retry_loop llm msgs chunks max_retries delay [0..<nat max_retries] None [] =
       retry_loop llm msgs chunks max_retries delay [0 + Suc k..<nat max_retries] le'
         ([] @ concat (map (attempt_events delay) [0..<0 + Suc k]))"
    using retry_loop_failures[OF le fl] by blast
  have lt: "Suc k < nat max_retries" using h by linarith
  let ?t = "schedule delay (Suc k) @ attempt_events delay (Suc k)"
  have "prefix ?t (snd (retry_loop llm msgs chunks max_retries delay [Suc k..<nat max_retries] le'
            (schedule delay (Suc k))))"
    using retry_loop_extends[of ?t llm msgs chunks max_retries delay
            "[Suc (Suc k)..<nat max_retries]"]
    by (auto simp: retry_loop_step[OF lt] split: sum.splits)
  then show ?thesis
    using run by (simp add: generate_def py_range_def schedule_def attempt_events_def)
qed

lemma generate_all_fail:
  assumes "1 \<le> max_retries"
    and h: "\<forall>i. int i < max_retries \<longrightarrow> isl (attempt_once llm msgs chunks i)"
  shows "generate llm msgs chunks max_retries delay =
           (Inl (projl (attempt_once llm msgs chunks (nat max_retries - 1))),
            schedule delay (nat max_retries))"
proof -
  define n where "n = nat max_retries - 1"
  have n: "nat max_retries = Suc n" "max_retries = int n + 1" using assms by (simp_all add: n_def)
  have le: "0 + n \<le> nat max_retries" using n by simp
  have fl: "\<forall>i. 0 \<le> i \<and> i < 0 + n \<longrightarrow>
              isl (attempt_once llm msgs chunks i) \<and> int i < max_retries - 1"
    using h n by auto
  obtain le' where run:
    "retry_loop llm msgs chunks max_retries delay [0..<nat max_retries] None [] =
       retry_loop llm msgs chunks max_retries delay [0 + n..<nat max_retries] le'
         ([] @ concat (map (attempt_events delay) [0..<0 + n]))"
    using retry_loop_failures[OF le fl] by blast
  have lt: "n < nat max_retries" using n by simp
  have "isl (attempt_once llm msgs chunks n)" using h n by simp
  then obtain e where e: "attempt_once llm msgs chunks n = Inl e" by (auto simp: isl_def)
  have last: "retry_loop llm msgs chunks max_retries delay [n..<nat max_retries] le'
                (schedule delay n) =
              (Inl e, schedule delay n @ attempt_events delay n)"
  proof -
    have r: "max_retries - 1 \<le> int n" using n(2) by simp
    show ?thesis using e r by (simp add: retry_loop_step[OF lt])
  qed
  have g: "generate llm msgs chunks max_retries delay =
             retry_loop llm msgs chunks max_retries delay [0..<nat max_retries] None []"
    by (simp add: generate_def py_range_def)
  have "generate llm msgs chunks max_retries delay = (Inl e, schedule delay (Suc n))"
    unfolding g run using last by (simp add: schedule_def)
  moreover have "projl (attempt_once llm msgs chunks (nat max_retries - 1)) = e"
    using e unfolding n_def by simp
  ultimately show ?thesis using n(1) by simp
qed

text \<open>
  Claim C1. For \<open>max_retries\<close> of at least 1, the events of the retry loop are those of
  its first \<open>m\<close> attempts for some \<open>m\<close> from 1 to \<open>max_retries\<close>: the first event is the
  first call, and a sleep of the fixed delay stands before every later call and
  nowhere else. When the attempts up to number \<open>k\<close> raise and attempts remain, the loop
  sleeps for the delay and makes attempt \<open>k + 1\<close>. When all \<open>max_retries\<close> attempts
  raise, the exception of the last one is raised to the caller; nothing is returned.
\<close>

theorem retry_sleeps_between_attempts_and_reraises:
  assumes "1 \<le> max_retries"
  shows "(\<exists>m. 1 \<le> m \<and> int m \<le> max_retries
              \<and> snd (generate llm msgs chunks max_retries delay) = schedule delay m)
       \<and> (\<forall>k. int k + 1 < max_retries \<and> (\<forall>i\<le>k. isl (attempt_once llm msgs chunks i)) \<longrightarrow>
              prefix (schedule delay (Suc k) @ [Sleep delay, Invoke (Suc k)])
                     (snd (generate llm msgs chunks max_retries delay)))
       \<and> ((\<forall>i. int i < max_retries \<longrightarrow> isl (attempt_once llm msgs chunks i)) \<longrightarrow>
              generate llm msgs chunks max_retries delay =
                (Inl (projl (attempt_once llm msgs chunks (nat max_retries - 1))),
                 schedule delay (nat max_retries)))"
  using generate_schedule[OF assms] generate_retries_after_failure generate_all_fail[OF assms]
  by blast

theorem retry_sleeps_between_attempts_and_reraises_witness:
  "generate failing_llm [] [] 3 2 =
     (Inl (APIError ''third''), [Invoke 0, Sleep 2, Invoke 1, Sleep 2, Invoke 2])
   \<and> prefix [Invoke 0, Sleep 2, Invoke 1] (snd (generate failing_llm [] [] 3 2))"
proof -
  have one: "(1::int) \<le> 3" by simp
  have all: "\<forall>i. int i < 3 \<longrightarrow> isl (attempt_once failing_llm [] [] i)"
    by (simp add: attempt_once_def failing_llm_def)
  have first: "int 0 + 1 < 3 \<and> (\<forall>i\<le>0. isl (attempt_once failing_llm [] [] i))"
    by (simp add: attempt_once_def failing_llm_def)
  have s: "schedule 2 (nat 3) = [Invoke 0, Sleep 2, Invoke 1, Sleep 2, Invoke 2]"
    by (simp add: schedule_def attempt_events_def upt_rec)
  have s1: "schedule 2 (Suc 0) = [Invoke 0]"
    by (simp add: schedule_def attempt_events_def)
  have p: "projl (attempt_once failing_llm [] [] (nat 3 - 1)) = APIError ''third''"
    by (simp add: attempt_once_def failing_llm_def)
  show ?thesis
    using retry_sleeps_between_attempts_and_reraises[OF one, of failing_llm "[]" "[]" 2]
          all first s s1 p
    by (auto simp del: upt_Suc)
qed

section \<open>Properties of the chat route\<close>

lemma retry_loop_events:
  "list_all is_generation_event trace \<Longrightarrow>
     list_all is_generation_event (snd (retry_loop llm msgs chunks N d attempts le trace))"
  by (induction attempts arbitrary: le trace) (auto simp: Let_def split: sum.splits)

lemma call_llm_events:
  "list_all is_generation_event
     (snd (call_llm_async_with_retry c search_post llm user_input session_id max_retries delay))"
proof -
  have g: "\<And>msgs chunks. list_all is_generation_event
             (snd (generate llm msgs chunks max_retries delay))"
    using retry_loop_events[of "[]" llm _ _ max_retries delay "py_range max_retries" None]
    by (simp add: generate_def)
  show ?thesis
    using g by (auto simp: call_llm_async_with_retry_def Let_def split: sum.splits prod.splits)
                (metis snd_conv)
qed

lemma call_llm_all_fail:
  assumes "1 \<le> max_retries"
    and "\<forall>i. int i < max_retries \<longrightarrow> (\<forall>msgs chunks. isl (attempt_once llm msgs chunks i))"
  shows "isl (fst (call_llm_async_with_retry c search_post llm user_input session_id
                     max_retries delay))"
  using assms
  by (auto simp: call_llm_async_with_retry_def Let_def generate_all_fail
           split: sum.splits prod.splits)

text \<open>
  With the store down the write of the user turn raises: the request is answered with
  status 500, nothing is stored and the generation call is not made.
\<close>

lemma chat_store_down:
  "\<not> up w \<Longrightarrow>
     chat c search_post llm rt w request =
       (JSONResponse (StrOf (CosmosError ''create_item'')) 500,
        w\<lparr>log := log w @ [CreateItem (user_document rt request)]\<rparr>)"
  by (simp add: chat_def save_message_to_cosmos_def create_item_def Let_def get_or_def
                user_document_def)

text \<open>
  Claim C5. With the store up, the calls of one chat request are, in this order: the
  write of the user turn, the events of the generation call (its search, sleeps and
  model calls, and no write), and then, only when the generation call returned a
  result, the write of the assistant turn. When the generation call raises, the
  caller gets a response with status 500 and the store holds the user turn as its
  newest document; and the generation call raises whenever all three attempts raise.
\<close>

theorem chat_appends_user_turn_before_generation:
  assumes "up w"
    and "call_llm_async_with_retry c search_post llm (rq_message request) (rq_session_id request)
           3 2 = (r, trace)"
    and "chat c search_post llm rt w request = (resp, w')"
  shows "log w' = log w @ [CreateItem (user_document rt request)] @ trace @
                   (case r of Inr (Some response_data) \<Rightarrow>
                                [CreateItem (assistant_document rt request response_data)]
                            | _ \<Rightarrow> [])
       \<and> docs w' = docs w @ [user_document rt request] @
                   (case r of Inr (Some response_data) \<Rightarrow>
                                [assistant_document rt request response_data]
                            | _ \<Rightarrow> [])
       \<and> list_all is_generation_event trace
       \<and> (isl r \<longrightarrow> resp = JSONResponse (StrOf (projl r)) 500
                     \<and> docs w' = docs w @ [user_document rt request])
       \<and> ((\<forall>i. int i < 3 \<longrightarrow> (\<forall>msgs chunks. isl (attempt_once llm msgs chunks i))) \<longrightarrow> isl r)"
proof -
  have ev: "list_all is_generation_event trace"
    using call_llm_events[of c search_post llm "rq_message request" "rq_session_id request" 3 2]
          assms(2) by simp
  have fail: "(\<forall>i. int i < 3 \<longrightarrow> (\<forall>msgs chunks. isl (attempt_once llm msgs chunks i))) \<longrightarrow> isl r"
    using call_llm_all_fail[of 3 llm c search_post "rq_message request" "rq_session_id request" 2]
          assms(2) by simp
  have main: "log w' = log w @ [CreateItem (user_document rt request)] @ trace @
                   (case r of Inr (Some response_data) \<Rightarrow>
                                [CreateItem (assistant_document rt request response_data)]
                            | _ \<Rightarrow> [])
       \<and> docs w' = docs w @ [user_document rt request] @
                   (case r of Inr (Some response_data) \<Rightarrow>
                                [assistant_document rt request response_data]
                            | _ \<Rightarrow> [])
       \<and> (isl r \<longrightarrow> resp = JSONResponse (StrOf (projl r)) 500
                     \<and> docs w' = docs w @ [user_document rt request])"
    using assms
    by (auto simp: chat_def save_message_to_cosmos_def create_item_def Let_def get_or_def
                   user_document_def assistant_document_def
             split: sum.splits option.splits prod.splits)
  show ?thesis using ev fail main by blast
qed


theorem chat_appends_user_turn_before_generation_witness:
  "fst (chat disabled_cosmos example_search failing_llm example_runtime empty_world
          example_request) = JSONResponse (StrOf (APIError ''third'')) 500
   \<and> docs (snd (chat disabled_cosmos example_search failing_llm example_runtime empty_world
                  example_request)) = [user_document example_runtime example_request]
   \<and> log (snd (chat disabled_cosmos example_search failing_llm example_runtime empty_world
                 example_request)) =
       [CreateItem (user_document example_runtime example_request),
        Search ''What is the refund policy?'', Invoke 0, Sleep 2, Invoke 1, Sleep 2, Invoke 2]"
proof -
  have u: "up empty_world" by (simp add: empty_world_def)
  have r: "call_llm_async_with_retry disabled_cosmos example_search failing_llm
             (rq_message example_request) (rq_session_id example_request) 3 2 =
           (Inl (APIError ''third''),
            [Search ''What is the refund policy?'', Invoke 0, Sleep 2, Invoke 1, Sleep 2, Invoke 2])"
    using example_call_fails by (simp add: example_request_def)
  have c: "chat disabled_cosmos example_search failing_llm example_runtime empty_world
             example_request =
           (fst (chat disabled_cosmos example_search failing_llm example_runtime empty_world
                   example_request),
            snd (chat disabled_cosmos example_search failing_llm example_runtime empty_world
                   example_request))"
    by simp
  show ?thesis
    using chat_appends_user_turn_before_generation[OF u r c]
    by (simp add: empty_world_def)
qed

section \<open>Properties of the feedback update\<close>

lemma replace_first_set_feedback:
  assumes "filter (\<lambda>d. d_id d = message_id) ds = item0 # rest"
  shows "replace_first message_id (item0\<lparr>d_feedback := Some feedback\<rparr>) ds =
           Some (set_feedback message_id feedback ds)"
  using assms
proof (induction ds)
  case Nil
  then show ?case by simp
next
  case (Cons d ds)
  then show ?case by (cases "d_id d = message_id") auto
qed

lemma set_feedback_no_match:
  "filter (\<lambda>d. d_id d = message_id) ds = [] \<Longrightarrow> set_feedback message_id feedback ds = ds"
  by (induction ds) (auto split: if_splits)

lemma set_feedback_idem:
  "set_feedback message_id feedback (set_feedback message_id feedback ds) =
     set_feedback message_id feedback ds"
  by (induction ds) auto

lemma update_feedback_invalid:
  "\<not> valid_feedback_request request \<Longrightarrow>
     update_feedback w request = (JSONResponse (Text ''Invalid input'') 400, w)"
  by (auto simp: update_feedback_def valid_feedback_request_def Let_def)

lemma update_feedback_down:
  "valid_feedback_request request \<Longrightarrow> \<not> up w \<Longrightarrow>
     update_feedback w request =
       (JSONResponse (Text ''Failed to update feedback'') 500,
        w\<lparr>log := log w @ [QueryItems (fr_id request)]\<rparr>)"
  by (auto simp: update_feedback_def valid_feedback_request_def Let_def query_items_def)

lemma update_feedback_not_found:
  "valid_feedback_request request \<Longrightarrow> up w \<Longrightarrow>
   filter (\<lambda>d. d_id d = fr_id request) (docs w) = [] \<Longrightarrow>
     update_feedback w request =
       (JSONResponse (Text ''Message not found in database'') 404,
        w\<lparr>log := log w @ [QueryItems (fr_id request)]\<rparr>)"
  by (auto simp: update_feedback_def valid_feedback_request_def Let_def query_items_def)

lemma update_feedback_found:
  assumes "valid_feedback_request request" "up w"
    and "filter (\<lambda>d. d_id d = fr_id request) (docs w) = item0 # rest"
  shows "update_feedback w request =
       (FeedbackOK (fr_id request) (fr_feedback request),
        w\<lparr>log := log w @ [QueryItems (fr_id request),
                            ReplaceItem (fr_id request)
                              (item0\<lparr>d_feedback := Some (fr_feedback request)\<rparr>)],
          docs := set_feedback (fr_id request) (fr_feedback request) (docs w)\<rparr>)"
  using assms replace_first_set_feedback[OF assms(3), of "fr_feedback request"]
  by (auto simp: update_feedback_def valid_feedback_request_def Let_def query_items_def
                 replace_item_def)

lemma update_feedback_docs:
  "docs (snd (update_feedback w request)) =
     (if valid_feedback_request request \<and> up w
      then set_feedback (fr_id request) (fr_feedback request) (docs w) else docs w)"
proof (cases "valid_feedback_request request")
  case False
  then show ?thesis by (simp add: update_feedback_invalid)
next
  case True
  show ?thesis
  proof (cases "up w")
    case False
    then show ?thesis using True by (simp add: update_feedback_down)
  next
    case up: True
    show ?thesis
    proof (cases "filter (\<lambda>d. d_id d = fr_id request) (docs w)")
      case Nil
      then show ?thesis using True up
        by (simp add: update_feedback_not_found set_feedback_no_match)
    next
      case (Cons item0 rest)
      then show ?thesis using True up by (simp add: update_feedback_found)
    qed
  qed
qed

lemma update_feedback_up: "up (snd (update_feedback w request)) = up w"
proof (cases "valid_feedback_request request")
  case False
  then show ?thesis by (simp add: update_feedback_invalid)
next
  case True
  show ?thesis
  proof (cases "up w")
    case False
    then show ?thesis using True by (simp add: update_feedback_down)
  next
    case up: True
    show ?thesis
    proof (cases "filter (\<lambda>d. d_id d = fr_id request) (docs w)")
      case Nil
      then show ?thesis using True up by (simp add: update_feedback_not_found)
    next
      case (Cons item0 rest)
      then show ?thesis using True up by (simp add: update_feedback_found)
    qed
  qed
qed

lemma set_feedback_ids: "map d_id (set_feedback message_id feedback ds) = map d_id ds"
  by (induction ds) auto

lemma update_feedback_ok:
  assumes "valid_feedback_request request \<and> up w \<and> (\<exists>d \<in> set (docs w). d_id d = fr_id request)"
  shows "fst (update_feedback w request) = FeedbackOK (fr_id request) (fr_feedback request)"
proof (cases "filter (\<lambda>d. d_id d = fr_id request) (docs w)")
  case Nil
  then show ?thesis using assms by (auto simp: filter_empty_conv)
next
  case (Cons item0 rest)
  then show ?thesis using assms by (simp add: update_feedback_found)
qed

text \<open>
  Claim C6. A feedback value that is neither \<open>positive\<close> nor \<open>negative\<close> is answered
  with status 400 and the world is left as it was: no document changes and no call to
  the store is made. A valid request, with the store up, whose identifier no stored
  document has is answered with status 404 and no document changes; with the store
  down the answer is status 500. The three status codes differ.
\<close>

theorem feedback_validation_and_not_found:
  "(fr_feedback request \<noteq> ''positive'' \<and> fr_feedback request \<noteq> ''negative'' \<longrightarrow>
      update_feedback w request = (JSONResponse (Text ''Invalid input'') 400, w))
   \<and> (valid_feedback_request request \<and> up w \<and> (\<forall>d \<in> set (docs w). d_id d \<noteq> fr_id request) \<longrightarrow>
        fst (update_feedback w request) = JSONResponse (Text ''Message not found in database'') 404
        \<and> docs (snd (update_feedback w request)) = docs w)
   \<and> (valid_feedback_request request \<and> \<not> up w \<longrightarrow>
        fst (update_feedback w request) = JSONResponse (Text ''Failed to update feedback'') 500)
   \<and> status_code (JSONResponse (Text ''Message not found in database'') 404)
        \<noteq> status_code (JSONResponse (Text ''Invalid input'') 400)
   \<and> status_code (JSONResponse (Text ''Message not found in database'') 404)
        \<noteq> status_code (JSONResponse (Text ''Failed to update feedback'') 500)"
proof -
  have a: "fr_feedback request \<noteq> ''positive'' \<and> fr_feedback request \<noteq> ''negative'' \<longrightarrow>
      update_feedback w request = (JSONResponse (Text ''Invalid input'') 400, w)"
    by (simp add: update_feedback_invalid valid_feedback_request_def)
  have b: "valid_feedback_request request \<and> up w \<and> (\<forall>d \<in> set (docs w). d_id d \<noteq> fr_id request) \<longrightarrow>
        fst (update_feedback w request) = JSONResponse (Text ''Message not found in database'') 404
        \<and> docs (snd (update_feedback w request)) = docs w"
  proof (intro impI)
    assume h: "valid_feedback_request request \<and> up w \<and> (\<forall>d \<in> set (docs w). d_id d \<noteq> fr_id request)"
    then have "filter (\<lambda>d. d_id d = fr_id request) (docs w) = []"
      by (simp add: filter_empty_conv)
    then show "fst (update_feedback w request) = JSONResponse (Text ''Message not found in database'') 404
        \<and> docs (snd (update_feedback w request)) = docs w"
      using h by (simp add: update_feedback_not_found)
  qed
  have c: "valid_feedback_request request \<and> \<not> up w \<longrightarrow>
        fst (update_feedback w request) = JSONResponse (Text ''Failed to update feedback'') 500"
    by (simp add: update_feedback_down)
  show ?thesis using a b c by simp
qed

theorem feedback_validation_and_not_found_witness:
  "update_feedback one_turn_world \<lparr>fr_id = ''m1'', fr_feedback = ''neutral'', fr_sessionId = ''s1''\<rparr>
     = (JSONResponse (Text ''Invalid input'') 400, one_turn_world)
   \<and> fst (update_feedback one_turn_world
            \<lparr>fr_id = ''xyz'', fr_feedback = ''positive'', fr_sessionId = ''s1''\<rparr>)
     = JSONResponse (Text ''Message not found in database'') 404
   \<and> fst (update_feedback (one_turn_world\<lparr>up := False\<rparr>)
            \<lparr>fr_id = ''xyz'', fr_feedback = ''positive'', fr_sessionId = ''s1''\<rparr>)
     = JSONResponse (Text ''Failed to update feedback'') 500"
  using feedback_validation_and_not_found[of
          "\<lparr>fr_id = ''m1'', fr_feedback = ''neutral'', fr_sessionId = ''s1''\<rparr>" one_turn_world]
        feedback_validation_and_not_found[of
          "\<lparr>fr_id = ''xyz'', fr_feedback = ''positive'', fr_sessionId = ''s1''\<rparr>" one_turn_world]
        feedback_validation_and_not_found[of
          "\<lparr>fr_id = ''xyz'', fr_feedback = ''positive'', fr_sessionId = ''s1''\<rparr>"
          "one_turn_world\<lparr>up := False\<rparr>"]
  by (simp add: valid_feedback_request_def one_turn_world_def stored_turn_def)

text \<open>
  Claim C9. The documents after two feedback updates with the same request are the
  documents after one. For a valid request, with the store up, on a stored turn, both
  updates succeed and the documents after one update are the stored documents with the
  feedback set on the first document that has the identifier.
\<close>

theorem feedback_update_idempotent:
  "docs (snd (update_feedback (snd (update_feedback w request)) request)) =
     docs (snd (update_feedback w request))
   \<and> (valid_feedback_request request \<and> up w \<and> (\<exists>d \<in> set (docs w). d_id d = fr_id request) \<longrightarrow>
        fst (update_feedback w request) = FeedbackOK (fr_id request) (fr_feedback request)
        \<and> fst (update_feedback (snd (update_feedback w request)) request) =
            FeedbackOK (fr_id request) (fr_feedback request)
        \<and> docs (snd (update_feedback w request)) =
            set_feedback (fr_id request) (fr_feedback request) (docs w))"
proof (intro conjI impI)
  show "docs (snd (update_feedback (snd (update_feedback w request)) request)) =
          docs (snd (update_feedback w request))"
    by (simp add: update_feedback_docs update_feedback_up set_feedback_idem)
next
  assume h: "valid_feedback_request request \<and> up w \<and> (\<exists>d \<in> set (docs w). d_id d = fr_id request)"
  then show "fst (update_feedback w request) = FeedbackOK (fr_id request) (fr_feedback request)"
    using update_feedback_ok by blast
next
  assume h: "valid_feedback_request request \<and> up w \<and> (\<exists>d \<in> set (docs w). d_id d = fr_id request)"
  let ?w = "snd (update_feedback w request)"
  have "set (map d_id (docs ?w)) = set (map d_id (docs w))"
    using h by (simp add: update_feedback_docs set_feedback_ids)
  then have "\<exists>d \<in> set (docs ?w). d_id d = fr_id request"
    using h by (metis (no_types, lifting) image_iff list.set_map)
  then show "fst (update_feedback ?w request) = FeedbackOK (fr_id request) (fr_feedback request)"
    using h update_feedback_ok[of request ?w] by (simp add: update_feedback_up)
next
  assume h: "valid_feedback_request request \<and> up w \<and> (\<exists>d \<in> set (docs w). d_id d = fr_id request)"
  then show "docs (snd (update_feedback w request)) =
               set_feedback (fr_id request) (fr_feedback request) (docs w)"
    by (simp add: update_feedback_docs)
qed

theorem feedback_update_idempotent_witness:
  "docs (snd (update_feedback one_turn_world
                \<lparr>fr_id = ''m1'', fr_feedback = ''positive'', fr_sessionId = ''s1''\<rparr>)) =
     [stored_turn\<lparr>d_feedback := Some ''positive''\<rparr>]
   \<and> docs (snd (update_feedback
                  (snd (update_feedback one_turn_world
                          \<lparr>fr_id = ''m1'', fr_feedback = ''positive'', fr_sessionId = ''s1''\<rparr>))
                  \<lparr>fr_id = ''m1'', fr_feedback = ''positive'', fr_sessionId = ''s1''\<rparr>)) =
     [stored_turn\<lparr>d_feedback := Some ''positive''\<rparr>]
   \<and> fst (update_feedback one_turn_world
            \<lparr>fr_id = ''m1'', fr_feedback = ''positive'', fr_sessionId = ''s1''\<rparr>) =
     FeedbackOK ''m1'' ''positive''"
  using feedback_update_idempotent[of one_turn_world
          "\<lparr>fr_id = ''m1'', fr_feedback = ''positive'', fr_sessionId = ''s1''\<rparr>"]
  by (simp add: valid_feedback_request_def one_turn_world_def stored_turn_def)


text \<open>
  Claim C10. Two requests that differ only in their \<open>sessionId\<close>, both non-empty, get
  the same response and leave the same world; an empty \<open>sessionId\<close> is answered with
  status 400 whatever the other fields are.
\<close>

theorem feedback_ignores_session_id:
  "(s1 \<noteq> [] \<and> s2 \<noteq> [] \<longrightarrow>
      update_feedback w \<lparr>fr_id = i, fr_feedback = f, fr_sessionId = s1\<rparr> =
      update_feedback w \<lparr>fr_id = i, fr_feedback = f, fr_sessionId = s2\<rparr>)
   \<and> update_feedback w \<lparr>fr_id = i, fr_feedback = f, fr_sessionId = []\<rparr> =
       (JSONResponse (Text ''Invalid input'') 400, w)"
  by (simp add: update_feedback_def Let_def)

theorem feedback_ignores_session_id_witness:
  "update_feedback one_turn_world \<lparr>fr_id = ''m1'', fr_feedback = ''negative'', fr_sessionId = ''s1''\<rparr>
     = update_feedback one_turn_world
         \<lparr>fr_id = ''m1'', fr_feedback = ''negative'', fr_sessionId = ''another''\<rparr>
   \<and> fst (update_feedback one_turn_world
            \<lparr>fr_id = ''m1'', fr_feedback = ''negative'', fr_sessionId = ''another''\<rparr>)
       = FeedbackOK ''m1'' ''negative''"
proof -
  have ne: "''s1'' \<noteq> [] \<and> ''another'' \<noteq> []" by simp
  have ok: "fst (update_feedback one_turn_world
            \<lparr>fr_id = ''m1'', fr_feedback = ''negative'', fr_sessionId = ''another''\<rparr>)
       = FeedbackOK ''m1'' ''negative''"
    by (simp add: update_feedback_def Let_def query_items_def replace_item_def
                  one_turn_world_def stored_turn_def)
  show ?thesis
    using feedback_ignores_session_id[of "''s1''" "''another''" one_turn_world "''m1''" "''negative''"]
          ne ok
    by simp
qed

section \<open>The history loop of the generation client\<close>

lemma session_loop_groups:
  "\<forall>g \<in> set (session_loop c user_id sids messages).
      g \<in> set messages \<or> (\<exists>s rows. g = [(''session_id'', PyStr s), (''messages'', PyRows rows)])"
proof (induction sids arbitrary: messages)
  case Nil
  then show ?case by simp
next
  case (Cons s sids)
  show ?case
  proof (cases "query_messages c user_id s")
    case (Inl e)
    then show ?thesis using Cons.IH[of messages] by simp
  next
    case (Inr rows)
    then show ?thesis
      using Cons.IH[of "messages @ [[(''session_id'', PyStr s),
                                     (''messages'', PyRows (sort_key m_timestamp rows))]]"]
      by auto
  qed
qed

lemma history_groups_have_no_role:
  "\<forall>g \<in> set (get_last_messages_from_cosmos c user_id limit).
      subscript g ''role'' = Inl (KeyError ''role'')"
proof
  fix g
  assume g: "g \<in> set (get_last_messages_from_cosmos c user_id limit)"
  then obtain sids where "g \<in> set (session_loop c user_id sids [])"
    by (auto simp: get_last_messages_from_cosmos_def split: option.splits if_splits)
  then obtain s rows where "g = [(''session_id'', PyStr s), (''messages'', PyRows rows)]"
    using session_loop_groups[of c user_id sids "[]"] by auto
  then show "subscript g ''role'' = Inl (KeyError ''role'')"
    by (simp add: subscript_def)
qed

lemma history_messages_first_raises:
  "gs \<noteq> [] \<Longrightarrow> subscript (hd gs) ''role'' = Inl e \<Longrightarrow> history_messages gs acc = Inl e"
  by (cases gs) auto

text \<open>
  Whenever the history fetch returns a non-empty list, the call raises before the
  first attempt: the error of the search if the search failed, and otherwise the
  \<open>KeyError\<close> of \<open>msg["role"]\<close> on the first element, a dict with the keys \<open>session_id\<close>
  and \<open>messages\<close>. No message list is sent to the model.
\<close>

lemma nonempty_history_raises:
  assumes "get_last_messages_from_cosmos c session_id 5 \<noteq> []"
  shows "call_llm_async_with_retry c search_post llm user_input session_id max_retries delay =
           (Inl (case query_azure_search search_post (user_input @ ''?'') 5 of
                   Inl e \<Rightarrow> e | Inr top_chunks \<Rightarrow> KeyError ''role''),
            [Search (user_input @ ''?'')])"
proof -
  let ?h = "get_last_messages_from_cosmos c session_id 5"
  have "subscript (hd ?h) ''role'' = Inl (KeyError ''role'')"
    using assms history_groups_have_no_role[of c session_id 5] by simp
  then have "history_messages ?h [] = Inl (KeyError ''role'')"
    using assms history_messages_first_raises by blast
  then show ?thesis
    by (auto simp: call_llm_async_with_retry_def Let_def split: sum.splits)
qed

text \<open>
  Claim C2, at a store that holds two turns of one session. The history fetch returns
  one dict for the session, holding the two turns under \<open>messages\<close>; the loop that is to
  append one role-tagged message per turn subscripts that dict with \<open>role\<close>, and the
  call ends in a \<open>KeyError\<close> before any message list reaches the model.
\<close>

theorem history_turns_raise_key_error:
  "get_last_messages_from_cosmos two_turn_cosmos ''u1'' 5 =
     [[(''session_id'', PyStr ''s1''),
       (''messages'', PyRows
          [\<lparr>m_id = ''m1'', m_role = ''user'', m_content = ''Hi'',
            m_timestamp = ''2024-01-01T10:00:00''\<rparr>,
           \<lparr>m_id = ''m2'', m_role = ''assistant'', m_content = ''Hello'',
            m_timestamp = ''2024-01-01T10:00:05''\<rparr>])]]
   \<and> call_llm_async_with_retry two_turn_cosmos example_search answering_llm
        ''What is the refund policy'' ''u1'' 3 2 =
      (Inl (KeyError ''role''), [Search ''What is the refund policy?''])"
proof -
  have h: "get_last_messages_from_cosmos two_turn_cosmos ''u1'' 5 =
     [[(''session_id'', PyStr ''s1''),
       (''messages'', PyRows
          [\<lparr>m_id = ''m1'', m_role = ''user'', m_content = ''Hi'',
            m_timestamp = ''2024-01-01T10:00:00''\<rparr>,
           \<lparr>m_id = ''m2'', m_role = ''assistant'', m_content = ''Hello'',
            m_timestamp = ''2024-01-01T10:00:05''\<rparr>])]]"
    by (simp add: get_last_messages_from_cosmos_def get_latest_session_ids_def
                  two_turn_cosmos_def)
  show ?thesis
    using h example_search_sorted[of "''What is the refund policy''"]
    by (simp add: call_llm_async_with_retry_def subscript_def)
qed

text \<open>
  With an empty history the message list is the one assembled prompt message, and the
  prompt is a function of the question and the retrieved chunks alone.
\<close>

lemma empty_history_single_message:
  assumes "get_last_messages_from_cosmos c session_id 5 = []"
    and "query_azure_search search_post (user_input @ ''?'') 5 = Inr top_chunks"
  shows "call_llm_async_with_retry c search_post llm user_input session_id max_retries delay =
           (fst (generate llm [\<lparr>cm_role = PyStr ''user'',
                                cm_content = PyStr (full_prompt user_input top_chunks)\<rparr>]
                    top_chunks max_retries delay),
            Search (user_input @ ''?'') #
            snd (generate llm [\<lparr>cm_role = PyStr ''user'',
                                cm_content = PyStr (full_prompt user_input top_chunks)\<rparr>]
                    top_chunks max_retries delay))"
  using assms by (simp add: call_llm_async_with_retry_def Let_def split: prod.splits)

end
